theory Spec2Isabelle
  imports Complex_Main "HOL-Library.AList"
begin

section \<open>Python values\<close>

text \<open>
  A Python \<open>str\<close> is a sequence of Unicode code points; it is modelled as a list of
  code points (natural numbers), so that the Cyrillic keywords of the mission language are
  written out code point by code point.  Python \<open>float\<close>s are modelled as real
  numbers: the rounding error of the IEEE operations, infinities and NaN are not
  modelled.  Every place where the source raises is a value \<open>Inl e\<close> of the model.
\<close>

type_synonym ustring = "nat list"

datatype py_error =
    ZeroDivisionError | ValueError | KeyError | IndexError | TypeError
  | AttributeError | NameError | SyntaxError | EOFError

type_synonym point = "real \<times> real"

text \<open>The keywords of the mission language (comments give the transliteration).\<close>

definition s_vertical :: ustring where \<comment> \<open>vertikalno\<close>
  "s_vertical = [1074, 1077, 1088, 1090, 1080, 1082, 1072, 1083, 1100, 1085, 1086]"

definition s_meander :: ustring where \<comment> \<open>meandr\<close>
  "s_meander = [1084, 1077, 1072, 1085, 1076, 1088]"

definition s_centered_meander :: ustring where \<comment> \<open>tsentralnyj_meandr\<close>
  "s_centered_meander =
     [1094, 1077, 1085, 1090, 1088, 1072, 1083, 1100, 1085, 1099, 1081, 95,
      1084, 1077, 1072, 1085, 1076, 1088]"

definition s_spiral :: ustring where \<comment> \<open>spiral\<close>
  "s_spiral = [1089, 1087, 1080, 1088, 1072, 1083, 1100]"

definition s_star :: ustring where \<comment> \<open>zvezda\<close>
  "s_star = [1079, 1074, 1077, 1079, 1076, 1072]"

definition s_rosette :: ustring where \<comment> \<open>rozetka\<close>
  "s_rosette = [1088, 1086, 1079, 1077, 1090, 1082, 1072]"

definition s_fan :: ustring where \<comment> \<open>veer\<close>
  "s_fan = [1074, 1077, 1077, 1088]"

definition s_point_survey :: ustring where \<comment> \<open>obsledovanie_tochki\<close>
  "s_point_survey =
     [1086, 1073, 1089, 1083, 1077, 1076, 1086, 1074, 1072, 1085, 1080, 1077, 95,
      1090, 1086, 1095, 1082, 1080]"

definition s_figure_survey :: ustring where \<comment> \<open>obsledovanie_figury\<close>
  "s_figure_survey =
     [1086, 1073, 1089, 1083, 1077, 1076, 1086, 1074, 1072, 1085, 1080, 1077, 95,
      1092, 1080, 1075, 1091, 1088, 1099]"

definition s_trajectory :: ustring where \<comment> \<open>traektoriya\<close>
  "s_trajectory = [1090, 1088, 1072, 1077, 1082, 1090, 1086, 1088, 1080, 1103]"

definition s_length :: ustring where \<comment> \<open>dlina\<close>
  "s_length = [1076, 1083, 1080, 1085, 1072]"

definition s_width :: ustring where \<comment> \<open>shirina\<close>
  "s_width = [1096, 1080, 1088, 1080, 1085, 1072]"

definition s_spacing :: ustring where \<comment> \<open>mezhgals\<close>
  "s_spacing = [1084, 1077, 1078, 1075, 1072, 1083, 1089]"

definition s_radius :: ustring where \<comment> \<open>radius\<close>
  "s_radius = [1088, 1072, 1076, 1080, 1091, 1089]"

definition s_angle :: ustring where \<comment> \<open>ugol\<close>
  "s_angle = [1091, 1075, 1086, 1083]"

definition s_direction :: ustring where \<comment> \<open>napravlenie\<close>
  "s_direction = [1085, 1072, 1087, 1088, 1072, 1074, 1083, 1077, 1085, 1080, 1077]"

definition s_clockwise :: ustring where \<comment> \<open>po chasovoj\<close>
  "s_clockwise = [1087, 1086, 32, 1095, 1072, 1089, 1086, 1074, 1086, 1081]"

definition s_counterclockwise :: ustring where \<comment> \<open>protiv chasovoj\<close>
  "s_counterclockwise =
     [1087, 1088, 1086, 1090, 1080, 1074, 32, 1095, 1072, 1089, 1086, 1074, 1086, 1081]"

definition s_lines :: ustring where \<comment> \<open>linii\<close>
  "s_lines = [1083, 1080, 1085, 1080, 1080]"

definition s_ray_length :: ustring where \<comment> \<open>dlina_lucha\<close>
  "s_ray_length = [1076, 1083, 1080, 1085, 1072, 95, 1083, 1091, 1095, 1072]"

definition s_passes :: ustring where \<comment> \<open>prokhody\<close>
  "s_passes = [1087, 1088, 1086, 1093, 1086, 1076, 1099]"

definition s_height :: ustring where \<comment> \<open>vysota\<close>
  "s_height = [1074, 1099, 1089, 1086, 1090, 1072]"

definition s_depth :: ustring where \<comment> \<open>glubina\<close>
  "s_depth = [1075, 1083, 1091, 1073, 1080, 1085, 1072]"

definition s_speed :: ustring where \<comment> \<open>skorost\<close>
  "s_speed = [1089, 1082, 1086, 1088, 1086, 1089, 1090, 1100]"

definition s_device :: ustring where \<comment> \<open>pribor\<close>
  "s_device = [1087, 1088, 1080, 1073, 1086, 1088]"

definition s_coordinates :: ustring where \<comment> \<open>koordinaty\<close>
  "s_coordinates = [1082, 1086, 1086, 1088, 1076, 1080, 1085, 1072, 1090, 1099]"

definition s_gbo :: ustring where \<comment> \<open>gbo, the side-scan sonar\<close>
  "s_gbo = [1075, 1073, 1086]"

definition s_mle :: ustring where \<comment> \<open>mle, the multibeam echosounder\<close>
  "s_mle = [1084, 1083, 1101]"

definition s_camera :: ustring where \<comment> \<open>fotokamera\<close>
  "s_camera = [1092, 1086, 1090, 1086, 1082, 1072, 1084, 1077, 1088, 1072]"

definition s_on :: ustring where \<comment> \<open>vkl\<close>
  "s_on = [1074, 1082, 1083]"

definition s_pause :: ustring where \<comment> \<open>pauza\<close>
  "s_pause = [1087, 1072, 1091, 1079, 1072]"

definition s_resume :: ustring where \<comment> \<open>prodolzhit\<close>
  "s_resume = [1087, 1088, 1086, 1076, 1086, 1083, 1078, 1080, 1090, 1100]"

definition s_off :: ustring where \<comment> \<open>vykl\<close>
  "s_off = [1074, 1099, 1082, 1083]"

definition s_max_time :: ustring where \<comment> \<open>maksimalnoe_vremya\<close>
  "s_max_time =
     [1084, 1072, 1082, 1089, 1080, 1084, 1072, 1083, 1100, 1085, 1086, 1077, 95,
      1074, 1088, 1077, 1084, 1103]"

definition s_time_no_link :: ustring where \<comment> \<open>vremya_bez_svyazi\<close>
  "s_time_no_link =
     [1074, 1088, 1077, 1084, 1103, 95, 1073, 1077, 1079, 95, 1089, 1074, 1103, 1079, 1080]"

lemmas keyword_defs =
  s_vertical_def s_meander_def s_centered_meander_def s_spiral_def s_star_def s_rosette_def
  s_fan_def s_point_survey_def s_figure_survey_def s_trajectory_def s_length_def s_width_def
  s_spacing_def s_radius_def s_angle_def s_direction_def s_clockwise_def
  s_counterclockwise_def s_lines_def s_ray_length_def s_passes_def s_height_def s_depth_def
  s_speed_def s_device_def s_coordinates_def s_gbo_def s_mle_def s_camera_def s_on_def
  s_pause_def s_resume_def s_off_def s_max_time_def s_time_no_link_def

text \<open>
  The values a parameter can hold: \<open>None\<close>, an \<open>int\<close>, a \<open>float\<close>, a \<open>str\<close>,
  and the dictionary of waypoint lists that \<open>main.py\<close> stores under the coordinates
  key.  A \<open>dict\<close> is an association list in insertion order.
\<close>

datatype pyval =
    VNone | VInt int | VFloat real | VStr ustring
  | VPoints "(ustring \<times> point list) list"

type_synonym params = "(ustring \<times> pyval) list"

text \<open>
  The entries of the command list the analyser produces: a one-key dictionary
  \<open>{name: parameters}\<close> for a function token, the record
  \<open>{"type": "condition", "value": token}\<close> for a condition token, and the empty
  dictionary for any other token.
\<close>

datatype command = Command ustring params | Condition ustring | EmptyCommand

text \<open>\<open>d[key]\<close> raises \<open>KeyError\<close> for a missing key.\<close>

definition dict_item :: "params \<Rightarrow> ustring \<Rightarrow> py_error + pyval" where
  "dict_item d k = (case map_of d k of None \<Rightarrow> Inl KeyError | Some v \<Rightarrow> Inr v)"

section \<open>String operations\<close>

text \<open>\<open>sub in s\<close> on strings.\<close>

fun is_prefix :: "'a list \<Rightarrow> 'a list \<Rightarrow> bool" where
  "is_prefix [] ys = True"
| "is_prefix (x # xs) [] = False"
| "is_prefix (x # xs) (y # ys) = (x = y \<and> is_prefix xs ys)"

fun str_contains :: "'a list \<Rightarrow> 'a list \<Rightarrow> bool" where
  "str_contains sub [] = (sub = [])"
| "str_contains sub (x # xs) = (is_prefix sub (x # xs) \<or> str_contains sub xs)"

text \<open>
  \<open>s.lower()\<close>, on the Basic Latin and the Cyrillic capital letters (the letters of
  the keywords are Cyrillic); every other code point is left as it is.
\<close>

definition lower_code_point :: "nat \<Rightarrow> nat" where
  "lower_code_point c =
     (if 65 \<le> c \<and> c \<le> 90 then c + 32
      else if 1040 \<le> c \<and> c \<le> 1071 then c + 32
      else if 1024 \<le> c \<and> c \<le> 1039 then c + 80
      else c)"

definition py_lower :: "ustring \<Rightarrow> ustring" where
  "py_lower s = map lower_code_point s"

text \<open>
  \<open>s.split(sep)\<close> for a non-empty separator: the pieces between the occurrences of
  \<open>sep\<close>, found from the left.  The first argument counts the code points of a
  separator just found that are still to be skipped.
\<close>

fun split_aux :: "nat \<Rightarrow> 'a list \<Rightarrow> 'a list \<Rightarrow> 'a list \<Rightarrow> 'a list list" where
  "split_aux k sep acc [] = [rev acc]"
| "split_aux (Suc k) sep acc (c # cs) = split_aux k sep acc cs"
| "split_aux 0 sep acc (c # cs) =
     (if is_prefix sep (c # cs) then rev acc # split_aux (length sep - 1) sep [] cs
      else split_aux 0 sep (c # acc) cs)"

definition py_split :: "ustring \<Rightarrow> ustring \<Rightarrow> ustring list" where
  "py_split s sep = split_aux 0 sep [] s"

definition s_comma_space :: ustring where
  "s_comma_space = [44, 32]"

text \<open>\<open>int(x)\<close> of a float truncates towards zero.\<close>

definition py_int :: "real \<Rightarrow> int" where
  "py_int x = (if 0 \<le> x then \<lfloor>x\<rfloor> else \<lceil>x\<rceil>)"

text \<open>
  \<open>round(x, n)\<close> rounds to \<open>n\<close> decimal places, a tie going to the even
  neighbour.
\<close>

definition round_half_even :: "real \<Rightarrow> int" where
  "round_half_even x =
     (let f = \<lfloor>x\<rfloor>; d = x - of_int f in
      if d < 1 / 2 then f
      else if 1 / 2 < d then f + 1
      else if even f then f else f + 1)"

definition py_round :: "real \<Rightarrow> nat \<Rightarrow> real" where
  "py_round x n = of_int (round_half_even (x * 10 ^ n)) / 10 ^ n"

section \<open>Trajectory generator: shared geometry (class TrajectoryGenerator)\<close>

definition EARTH_RADIUS :: real where
  "EARTH_RADIUS = 6371000"

definition DEG_TO_RAD :: real where
  "DEG_TO_RAD = pi / 180"

definition RAD_TO_DEG :: real where
  "RAD_TO_DEG = 180 / pi"

definition COS_LAT_THRESHOLD :: real where
  "COS_LAT_THRESHOLD = 1 / 10 ^ 12"

text \<open>
  \<open>add_meters_to_coordinates(lat, lon, meters_north, meters_east)\<close> returns the pair
  \<open>(lon, lat)\<close>.  The only divisors are the Earth radius and, behind the threshold
  guard, \<open>EARTH_RADIUS * cos_lat\<close>: no division by zero can occur.
\<close>

definition add_meters_to_coordinates :: "real \<Rightarrow> real \<Rightarrow> real \<Rightarrow> real \<Rightarrow> point" where
  "add_meters_to_coordinates lat lon meters_north meters_east =
     (if 90 \<le> \<bar>lat\<bar> then
        (let delta_lat = meters_north / EARTH_RADIUS * RAD_TO_DEG in
         (py_round lon 6, py_round (lat + delta_lat) 6))
      else
        (let lat_rad = lat * DEG_TO_RAD;
             delta_lat = meters_north / EARTH_RADIUS * RAD_TO_DEG;
             cos_lat = cos lat_rad;
             delta_lon = (if COS_LAT_THRESHOLD < \<bar>cos_lat\<bar>
                          then meters_east / (EARTH_RADIUS * cos_lat) * RAD_TO_DEG
                          else 0) in
         (py_round (lon + delta_lon) 6, py_round (lat + delta_lat) 6)))"

definition rotate_point :: "point \<Rightarrow> point \<Rightarrow> real \<Rightarrow> point" where
  "rotate_point origin p angle_deg =
     (let ox = fst origin; oy = snd origin;
          px = fst p; py = snd p;
          angle_rad = angle_deg * DEG_TO_RAD;
          cos_a = cos angle_rad; sin_a = sin angle_rad;
          dx = px - ox; dy = py - oy in
      (py_round (ox + cos_a * dx - sin_a * dy) 6,
       py_round (oy + sin_a * dx + cos_a * dy) 6))"

section \<open>Meander (classes BaseMeanderGenerator, MeanderGenerator, CenteredMeanderGenerator)\<close>

text \<open>The body of the loop of \<open>_generate_meander_segment\<close> for pass \<open>i\<close>.\<close>

definition meander_pass :: "real \<Rightarrow> real \<Rightarrow> real \<Rightarrow> real \<Rightarrow> bool \<Rightarrow> nat \<Rightarrow> point list" where
  "meander_pass start_lon start_lat size_m spacing_m is_vertical i =
     (let offset = of_nat i * spacing_m in
      if is_vertical then
        (let current = add_meters_to_coordinates start_lat start_lon 0 offset in
         if i mod 2 = 0 then
           [current, add_meters_to_coordinates (snd current) (fst current) size_m 0]
         else
           [add_meters_to_coordinates start_lat start_lon size_m offset, current])
      else
        (let current = add_meters_to_coordinates start_lat start_lon offset 0 in
         if i mod 2 = 0 then
           [current, add_meters_to_coordinates (snd current) (fst current) 0 size_m]
         else
           [add_meters_to_coordinates start_lat start_lon offset size_m, current]))"

text \<open>
  \<open>_generate_meander_segment\<close>: the division \<open>steps / spacing_m\<close> raises
  \<open>ZeroDivisionError\<close> for a zero spacing; \<open>range(num_passes + 1)\<close> runs over
  \<open>0 .. num_passes\<close>.
\<close>

definition meander_num_passes :: "real \<Rightarrow> real \<Rightarrow> int" where
  "meander_num_passes steps spacing_m = max 1 (py_int (steps / spacing_m))"

definition generate_meander_segment ::
  "real \<Rightarrow> real \<Rightarrow> real \<Rightarrow> real \<Rightarrow> real \<Rightarrow> ustring \<Rightarrow> py_error + point list" where
  "generate_meander_segment start_lon start_lat width_m length_m spacing_m direction =
     (let is_vertical = (direction = s_vertical);
          size_m = (if is_vertical then length_m else width_m);
          steps = (if is_vertical then width_m else length_m) in
      if spacing_m = 0 then Inl ZeroDivisionError
      else
        (let num_passes = meander_num_passes steps spacing_m in
         Inr (concat (map (meander_pass start_lon start_lat size_m spacing_m is_vertical)
                        [0 ..< nat (num_passes + 1)]))))"

definition generate_meander ::
  "real \<Rightarrow> real \<Rightarrow> real \<Rightarrow> real \<Rightarrow> real \<Rightarrow> ustring \<Rightarrow> real \<Rightarrow> py_error + point list" where
  "generate_meander start_lon start_lat width_m length_m spacing_m direction angle_deg =
     (case generate_meander_segment start_lon start_lat width_m length_m spacing_m direction of
        Inl e \<Rightarrow> Inl e
      | Inr points \<Rightarrow>
          Inr (if angle_deg \<noteq> 0
               then map (\<lambda>p. rotate_point (start_lon, start_lat) p angle_deg) points
               else points))"

definition generate_centered_meander ::
  "real \<Rightarrow> real \<Rightarrow> real \<Rightarrow> real \<Rightarrow> real \<Rightarrow> ustring \<Rightarrow> real \<Rightarrow> py_error + point list" where
  "generate_centered_meander center_lon center_lat width_m length_m spacing_m direction angle_deg =
     (let half_width_m = width_m / 2;
          half_length_m = length_m / 2;
          start = add_meters_to_coordinates center_lat center_lon (- half_length_m) (- half_width_m) in
      case generate_meander_segment (fst start) (snd start) width_m length_m spacing_m direction of
        Inl e \<Rightarrow> Inl e
      | Inr points0 \<Rightarrow>
          (let points = (if points0 \<noteq> [] then tl points0 else points0) in
           Inr (if angle_deg \<noteq> 0
                then map (\<lambda>p. rotate_point (center_lon, center_lat) p angle_deg) points
                else points)))"

section \<open>Spiral (class SpiralGenerator)\<close>

definition ANGLE_STEP :: real where
  "ANGLE_STEP = pi / 8"

text \<open>
  The \<open>while\<close> loop of \<open>generate_spiral\<close>, with the loop variables \<open>radius\<close>
  and \<open>points\<close> as arguments.  The loop need not terminate (a spacing that is not
  positive never lets the radius pass the maximum), so the result is optional: \<open>None\<close>
  is a run that never returns.  \<open>2 * math.pi * radius / spacing_m\<close> raises
  \<open>ZeroDivisionError\<close> for a zero spacing and \<open>len(points) % point_freq\<close> for a
  zero decimation factor.  Python's \<open>%\<close> on integers takes the sign of the divisor, as
  \<open>mod\<close> on \<open>int\<close> does.
\<close>

partial_function (option) spiral_loop ::
  "real \<Rightarrow> real \<Rightarrow> real \<Rightarrow> real \<Rightarrow> real \<Rightarrow> int \<Rightarrow> real \<Rightarrow> point list
     \<Rightarrow> (py_error + point list) option" where
  "spiral_loop center_lon center_lat max_radius_m spacing_m direction point_freq radius points =
     (if radius \<le> max_radius_m then
        (let radius' = radius + spacing_m * ANGLE_STEP / (2 * pi) in
         if spacing_m = 0 then Some (Inl ZeroDivisionError)
         else
           (let angle = direction * 2 * pi * radius' / spacing_m;
                dx = radius' * cos angle;
                dy = radius' * sin angle in
            if point_freq = 0 then Some (Inl ZeroDivisionError)
            else if int (length points) mod point_freq = 0 then
              spiral_loop center_lon center_lat max_radius_m spacing_m direction point_freq radius'
                (points @ [add_meters_to_coordinates center_lat center_lon dy dx])
            else
              spiral_loop center_lon center_lat max_radius_m spacing_m direction point_freq radius'
                points))
      else Some (Inr points))"

definition generate_spiral ::
  "real \<Rightarrow> real \<Rightarrow> real \<Rightarrow> real \<Rightarrow> bool \<Rightarrow> int \<Rightarrow> (py_error + point list) option" where
  "generate_spiral center_lon center_lat max_radius_m spacing_m clockwise point_freq =
     spiral_loop center_lon center_lat max_radius_m spacing_m (if clockwise then 1 else - 1)
       point_freq 0 [(center_lon, center_lat)]"

section \<open>Star and rosette (classes StarGenerator, RosetteGenerator)\<close>

definition math_radians :: "real \<Rightarrow> real" where
  "math_radians d = d * pi / 180"

definition round_point :: "point \<Rightarrow> point" where
  "round_point p = (py_round (fst p) 6, py_round (snd p) 6)"

text \<open>
  Both generators divide by \<open>111320 * cos_lat\<close> in each iteration of their loop; over
  the reals the cosine of the latitude is zero at the poles, where the division raises
  \<open>ZeroDivisionError\<close>.
\<close>

definition star_ray :: "real \<Rightarrow> real \<Rightarrow> real \<Rightarrow> real \<Rightarrow> real \<Rightarrow> real \<Rightarrow> real \<Rightarrow> nat \<Rightarrow> point list" where
  "star_ray center_lon center_lat radius_m angle_offset line_length angle_step cos_lat i =
     (let angle = math_radians angle_offset + of_nat i * angle_step;
          outer = (center_lon + (line_length * cos angle) / (111320 * cos_lat),
                   center_lat + (line_length * sin angle) / 111320) in
      (if 0 < radius_m then
         (let inner_angle = angle + angle_step / 2;
              inner = (center_lon + (radius_m * cos inner_angle) / (111320 * cos_lat),
                       center_lat + (radius_m * sin inner_angle) / 111320) in
          [outer, inner])
       else [outer])
      @ [(center_lon, center_lat)])"

text \<open>
  \<open>generate_star\<close>: the number of rays may be an \<open>int\<close> or a \<open>float\<close>; the loop
  runs over \<open>range(int(num_lines))\<close>.
\<close>

definition generate_star ::
  "real \<Rightarrow> real \<Rightarrow> real \<Rightarrow> real \<Rightarrow> real \<Rightarrow> real \<Rightarrow> py_error + point list" where
  "generate_star center_lon center_lat radius_m num_lines angle_offset line_length =
     (if num_lines < 2 then Inl ValueError
      else
        (let angle_step = 2 * pi / num_lines;
             cos_lat = cos (center_lat * pi / 180) in
         if 111320 * cos_lat = 0 then Inl ZeroDivisionError
         else
           Inr (map round_point
                  (concat (map (star_ray center_lon center_lat radius_m angle_offset line_length
                                  angle_step cos_lat)
                             [0 ..< nat (py_int num_lines)])))))"

definition rosette_end :: "real \<Rightarrow> real \<Rightarrow> real \<Rightarrow> real \<Rightarrow> real \<Rightarrow> real \<Rightarrow> nat \<Rightarrow> point" where
  "rosette_end center_lon center_lat radius_m angle_offset angle_step cos_lat i =
     (let angle = math_radians angle_offset + of_nat i * angle_step in
      (center_lon + (radius_m * cos angle) / (111320 * cos_lat),
       center_lat + (radius_m * sin angle) / 111320))"

text \<open>
  \<open>generate_rosette\<close>: \<open>math.pi / num_passes\<close> raises \<open>ZeroDivisionError\<close> for
  \<open>num_passes = 0\<close>; \<open>range(num_passes)\<close> is empty for a negative count.
\<close>

definition generate_rosette ::
  "real \<Rightarrow> real \<Rightarrow> real \<Rightarrow> int \<Rightarrow> real \<Rightarrow> py_error + point list" where
  "generate_rosette center_lon center_lat radius_m num_passes angle_offset =
     (if num_passes = 0 then Inl ZeroDivisionError
      else
        (let angle_step = pi / of_int num_passes;
             cos_lat = cos (math_radians center_lat) in
         if 0 < num_passes \<and> 111320 * cos_lat = 0 then Inl ZeroDivisionError
         else
           Inr (map round_point
                  (concat (map (\<lambda>i. [rosette_end center_lon center_lat radius_m angle_offset
                                        angle_step cos_lat i,
                                      (center_lon, center_lat)])
                             [0 ..< nat num_passes])))))"

section \<open>Trajectory dispatch (class Figure)\<close>

text \<open>
  A \<open>Figure\<close> holds the decoded centre, the command name and the command.  The
  constructor's decoding of the coordinate text is not part of the model: the record
  starts from the decoded longitude and latitude.
\<close>

record figure =
  fig_lon :: real
  fig_lat :: real
  fig_key :: ustring
  fig_command :: command

definition s_type :: ustring where \<comment> \<open>"type"\<close>
  "s_type = [116, 121, 112, 101]"

definition s_value :: ustring where \<comment> \<open>"value"\<close>
  "s_value = [118, 97, 108, 117, 101]"

text \<open>
  \<open>self.command[self.key]\<close> where the key is in the command: the parameters of a
  function command; for a condition record the value under \<open>"type"\<close> or
  \<open>"value"\<close> is a string, which has no \<open>get\<close>.
\<close>

definition command_params :: "figure \<Rightarrow> (py_error + params) option" where
  "command_params fig =
     (case fig_command fig of
        Command k v \<Rightarrow> (if fig_key fig = k then Some (Inr v) else None)
      | Condition t \<Rightarrow>
          (if fig_key fig = s_type \<or> fig_key fig = s_value then Some (Inl AttributeError)
           else None)
      | EmptyCommand \<Rightarrow> None)"

text \<open>
  \<open>_get_trajectory_type\<close>.  \<open>params.get("trajectory", "")\<close> must be a string for
  \<open>split\<close>; the text before the first comma is lowercased and tested for the
  keywords in the order of the source.
\<close>

definition trajectory_key :: "ustring \<Rightarrow> ustring" where
  "trajectory_key t = py_lower (takeWhile (\<lambda>c. c \<noteq> 44) t)"

definition classify_trajectory :: "ustring \<Rightarrow> ustring \<Rightarrow> ustring option" where
  "classify_trajectory key traj =
     (if str_contains s_meander traj \<and> key = s_point_survey then Some s_centered_meander
      else if str_contains s_meander traj then Some s_meander
      else if str_contains s_spiral traj then Some s_spiral
      else if str_contains s_star traj then Some s_star
      else if str_contains s_rosette traj \<or> str_contains s_fan traj then Some s_rosette
      else None)"

definition get_trajectory_type :: "figure \<Rightarrow> py_error + ustring option" where
  "get_trajectory_type fig =
     (case command_params fig of
        None \<Rightarrow> Inr None
      | Some (Inl e) \<Rightarrow> Inl e
      | Some (Inr v) \<Rightarrow>
          (case map_of v s_trajectory of
             None \<Rightarrow> Inr (classify_trajectory (fig_key fig) (trajectory_key []))
           | Some (VStr t) \<Rightarrow> Inr (classify_trajectory (fig_key fig) (trajectory_key t))
           | Some _ \<Rightarrow> Inl AttributeError))"

text \<open>The numeric value of an \<open>int\<close> or a \<open>float\<close>; arithmetic on any other value
  raises \<open>TypeError\<close>.\<close>

definition as_number :: "pyval \<Rightarrow> real option" where
  "as_number v = (case v of VInt i \<Rightarrow> Some (of_int i) | VFloat r \<Rightarrow> Some r | _ \<Rightarrow> None)"

definition dict_get :: "params \<Rightarrow> ustring \<Rightarrow> pyval \<Rightarrow> pyval" where
  "dict_get d k dflt = (case map_of d k of None \<Rightarrow> dflt | Some v \<Rightarrow> v)"

text \<open>\<open>params["trajectory"].split(", ")[1]\<close>.\<close>

definition trajectory_direction :: "params \<Rightarrow> py_error + ustring" where
  "trajectory_direction v =
     (case dict_item v s_trajectory of
        Inl e \<Rightarrow> Inl e
      | Inr (VStr t) \<Rightarrow>
          (case py_split t s_comma_space of
             a # b # rest \<Rightarrow> Inr b
           | _ \<Rightarrow> Inl IndexError)
      | Inr _ \<Rightarrow> Inl AttributeError)"

text \<open>
  The angle of the two meander generators is used as a truth value first (\<open>None\<close>,
  zero and the empty string are false) and as a number in the rotation.
\<close>

definition meander_angle :: "pyval \<Rightarrow> py_error + real" where
  "meander_angle a =
     (case a of
        VNone \<Rightarrow> Inr 0
      | VInt i \<Rightarrow> Inr (of_int i)
      | VFloat r \<Rightarrow> Inr r
      | VStr t \<Rightarrow> (if t = [] then Inr 0 else Inl TypeError)
      | VPoints d \<Rightarrow> (if d = [] then Inr 0 else Inl TypeError))"

text \<open>
  The calls of the two meander generators with untyped arguments.  The segment
  computes \<open>steps / spacing_m\<close> first (a \<open>TypeError\<close> for a value that is no number,
  then \<open>ZeroDivisionError\<close>) and uses \<open>size\<close> in every pass, the angle comes last;
  the centred generator halves the width and the length before that.

  In the horizontal direction \<open>size\<close> is the eastward offset, which
  \<open>add_meters_to_coordinates\<close> reads only below 90 degrees of latitude and above the
  cosine threshold: a \<open>size\<close> that is no number raises \<open>TypeError\<close> in the first
  pass that reads it, and is never looked at if no pass does.
\<close>

definition east_offset_read :: "real \<Rightarrow> bool" where
  "east_offset_read lat \<longleftrightarrow>
     \<not> 90 \<le> \<bar>lat\<bar> \<and> COS_LAT_THRESHOLD < \<bar>cos (lat * DEG_TO_RAD)\<bar>"

definition horizontal_size_read :: "real \<Rightarrow> real \<Rightarrow> real \<Rightarrow> nat \<Rightarrow> bool" where
  "horizontal_size_read start_lon start_lat spacing_m i =
     east_offset_read
       (if i mod 2 = 0
        then snd (add_meters_to_coordinates start_lat start_lon (of_nat i * spacing_m) 0)
        else start_lat)"

definition call_meander ::
  "real \<Rightarrow> real \<Rightarrow> pyval \<Rightarrow> pyval \<Rightarrow> pyval \<Rightarrow> ustring \<Rightarrow> pyval \<Rightarrow> py_error + point list" where
  "call_meander start_lon start_lat width_m length_m spacing_m direction angle_deg =
     (let steps = (if direction = s_vertical then width_m else length_m);
          size_m = (if direction = s_vertical then length_m else width_m) in
      case (as_number steps, as_number spacing_m) of
        (Some st, Some sp) \<Rightarrow>
          (if sp = 0 then Inl ZeroDivisionError
           else
             (case as_number size_m of
                None \<Rightarrow>
                  (if direction = s_vertical then Inl TypeError
                   else if list_ex (horizontal_size_read start_lon start_lat sp)
                             [0 ..< nat (meander_num_passes st sp + 1)]
                     then Inl TypeError
                   else
                     (case meander_angle angle_deg of
                        Inl e \<Rightarrow> Inl e
                      | Inr a \<Rightarrow> generate_meander start_lon start_lat 0 st sp direction a))
              | Some sz \<Rightarrow>
                  (case meander_angle angle_deg of
                     Inl e \<Rightarrow> Inl e
                   | Inr a \<Rightarrow>
                       generate_meander start_lon start_lat
                         (if direction = s_vertical then st else sz)
                         (if direction = s_vertical then sz else st) sp direction a)))
      | _ \<Rightarrow> Inl TypeError)"

definition call_centered_meander ::
  "real \<Rightarrow> real \<Rightarrow> pyval \<Rightarrow> pyval \<Rightarrow> pyval \<Rightarrow> ustring \<Rightarrow> pyval \<Rightarrow> py_error + point list" where
  "call_centered_meander center_lon center_lat width_m length_m spacing_m direction angle_deg =
     (case (as_number width_m, as_number length_m) of
        (Some w, Some l) \<Rightarrow>
          (case as_number spacing_m of
             None \<Rightarrow> Inl TypeError
           | Some sp \<Rightarrow>
               (if sp = 0 then Inl ZeroDivisionError
                else
                  (case meander_angle angle_deg of
                     Inl e \<Rightarrow> Inl e
                   | Inr a \<Rightarrow>
                       generate_centered_meander center_lon center_lat w l sp direction a)))
      | _ \<Rightarrow> Inl TypeError)"

text \<open>
  \<open>float(v)\<close>: the parsing of a string by \<open>float\<close> is a parameter of the model,
  \<open>str_float s\<close> being the value or \<open>None\<close> where \<open>float\<close> raises \<open>ValueError\<close>.
\<close>

definition py_float :: "(ustring \<Rightarrow> real option) \<Rightarrow> pyval \<Rightarrow> py_error + real" where
  "py_float str_float v =
     (case v of
        VInt i \<Rightarrow> Inr (of_int i)
      | VFloat r \<Rightarrow> Inr r
      | VStr t \<Rightarrow> (case str_float t of None \<Rightarrow> Inl ValueError | Some r \<Rightarrow> Inr r)
      | _ \<Rightarrow> Inl TypeError)"

text \<open>
  The calls of the star and the rosette generator with untyped arguments, the checks
  in the order in which the generator's body meets the values.
\<close>

definition call_star ::
  "real \<Rightarrow> real \<Rightarrow> pyval \<Rightarrow> pyval \<Rightarrow> pyval \<Rightarrow> pyval \<Rightarrow> py_error + point list" where
  "call_star center_lon center_lat radius_m angle_offset num_lines line_length =
     (case as_number num_lines of
        None \<Rightarrow> Inl TypeError
      | Some n \<Rightarrow>
          (if n < 2 then Inl ValueError
           else
             (case (as_number angle_offset, as_number line_length) of
                (Some a, Some ll) \<Rightarrow>
                  (if 111320 * cos (center_lat * pi / 180) = 0 then Inl ZeroDivisionError
                   else
                     (case as_number radius_m of
                        None \<Rightarrow> Inl TypeError
                      | Some r \<Rightarrow> generate_star center_lon center_lat r n a ll))
              | _ \<Rightarrow> Inl TypeError)))"

definition call_rosette ::
  "real \<Rightarrow> real \<Rightarrow> pyval \<Rightarrow> pyval \<Rightarrow> pyval \<Rightarrow> py_error + point list" where
  "call_rosette center_lon center_lat radius_m angle_offset num_passes =
     (case num_passes of
        VInt n \<Rightarrow>
          (if n = 0 then Inl ZeroDivisionError
           else if n < 0 then Inr []
           else
             (case (as_number angle_offset, as_number radius_m) of
                (Some a, Some r) \<Rightarrow> generate_rosette center_lon center_lat r n a
              | _ \<Rightarrow> Inl TypeError))
      | VFloat x \<Rightarrow> (if x = 0 then Inl ZeroDivisionError else Inl TypeError)
      | _ \<Rightarrow> Inl TypeError)"

text \<open>
  \<open>Figure.coordinates\<close>.  The result is optional because the spiral's loop need not
  return.  The spiral is called with \<open>clockwise\<close> set to whether the direction
  parameter is the counter-clockwise keyword, and with the default decimation factor.
\<close>

definition coordinates ::
  "(ustring \<Rightarrow> real option) \<Rightarrow> figure \<Rightarrow> (py_error + point list) option" where
  "coordinates str_float fig =
     (case get_trajectory_type fig of
        Inl e \<Rightarrow> Some (Inl e)
      | Inr None \<Rightarrow> Some (Inr [])
      | Inr (Some trajectory_type) \<Rightarrow>
          (case command_params fig of
             None \<Rightarrow> Some (Inl KeyError)
           | Some (Inl e) \<Rightarrow> Some (Inl e)
           | Some (Inr v) \<Rightarrow>
               (let radius_m = dict_get v s_radius (VInt 10);
                    angle_offset = dict_get v s_angle (VInt 0) in
                if trajectory_type = s_meander \<or> trajectory_type = s_centered_meander then
                  (case dict_item v s_length of
                     Inl e \<Rightarrow> Some (Inl e)
                   | Inr a1 \<Rightarrow>
                       (case dict_item v s_width of
                          Inl e \<Rightarrow> Some (Inl e)
                        | Inr a2 \<Rightarrow>
                            (case dict_item v s_spacing of
                               Inl e \<Rightarrow> Some (Inl e)
                             | Inr a3 \<Rightarrow>
                                 (case trajectory_direction v of
                                    Inl e \<Rightarrow> Some (Inl e)
                                  | Inr d \<Rightarrow>
                                      Some ((if trajectory_type = s_meander
                                             then call_meander else call_centered_meander)
                                              (fig_lon fig) (fig_lat fig) a1 a2 a3 d
                                              (dict_get v s_angle (VInt 0)))))))
                else if trajectory_type = s_spiral then
                  (case dict_item v s_radius of
                     Inl e \<Rightarrow> Some (Inl e)
                   | Inr r0 \<Rightarrow>
                       (case py_float str_float r0 of
                          Inl e \<Rightarrow> Some (Inl e)
                        | Inr r \<Rightarrow>
                            (case dict_item v s_spacing of
                               Inl e \<Rightarrow> Some (Inl e)
                             | Inr s0 \<Rightarrow>
                                 (case py_float str_float s0 of
                                    Inl e \<Rightarrow> Some (Inl e)
                                  | Inr sp \<Rightarrow>
                                      (case dict_get v s_direction (VStr s_clockwise) of
                                         VStr d \<Rightarrow>
                                           generate_spiral (fig_lon fig) (fig_lat fig) r sp
                                             (py_lower d = s_counterclockwise) 1
                                       | _ \<Rightarrow> Some (Inl AttributeError))))))
                else if trajectory_type = s_star then
                  Some (call_star (fig_lon fig) (fig_lat fig) radius_m angle_offset
                          (dict_get v s_lines (VInt 5)) (dict_get v s_ray_length (VInt 20)))
                else
                  Some (call_rosette (fig_lon fig) (fig_lat fig) radius_m angle_offset
                          (dict_get v s_passes (VInt 6))))))"

section \<open>Parameter validator (class ParametersValidator)\<close>

datatype param_type = TFloat | TInt

definition PARAM_TYPES :: "ustring \<Rightarrow> param_type option" where
  "PARAM_TYPES name =
     (if name \<in> {s_width, s_length, s_height, s_depth, s_spacing, s_radius, s_speed, s_angle}
        then Some TFloat
      else if name \<in> {s_lines, s_max_time, s_time_no_link} then Some TInt
      else None)"

text \<open>
  The rule set as \<open>_load_parameters\<close> leaves it: the required names of each command,
  the optional names with their defaults, the names that depend on a trajectory.
\<close>

record rules =
  required_keys :: "(ustring \<times> ustring list) list"
  optional_keys :: "(ustring \<times> params) list"
  trajectory_dependent :: "(ustring \<times> (ustring \<times> ustring list) list) list"

text \<open>
  \<open>_prompt_for_parameter\<close> reads lines until one converts to the declared type of
  the parameter.  The lines still to be read are an argument; \<open>input\<close> raises
  \<open>EOFError\<close> when none is left.  The parsing of a string by \<open>float\<close> and by
  \<open>int\<close> are the parameters \<open>str_float\<close> and \<open>str_int\<close> (\<open>None\<close> where the
  conversion raises \<open>ValueError\<close>).
\<close>

fun prompt_for_parameter ::
  "(ustring \<Rightarrow> real option) \<Rightarrow> (ustring \<Rightarrow> int option) \<Rightarrow> ustring \<Rightarrow> ustring list
     \<Rightarrow> py_error + (pyval \<times> ustring list)" where
  "prompt_for_parameter str_float str_int param_name [] = Inl EOFError"
| "prompt_for_parameter str_float str_int param_name (line # rest) =
     (case PARAM_TYPES param_name of
        None \<Rightarrow> Inr (VStr line, rest)
      | Some TFloat \<Rightarrow>
          (case str_float line of
             Some r \<Rightarrow> Inr (VFloat r, rest)
           | None \<Rightarrow> prompt_for_parameter str_float str_int param_name rest)
      | Some TInt \<Rightarrow>
          (case str_int line of
             Some i \<Rightarrow> Inr (VInt i, rest)
           | None \<Rightarrow> prompt_for_parameter str_float str_int param_name rest))"

text \<open>\<open>if param not in params: params[param] = self._prompt_for_parameter(...)\<close>.\<close>

definition prompt_missing ::
  "(ustring \<Rightarrow> real option) \<Rightarrow> (ustring \<Rightarrow> int option) \<Rightarrow> ustring
     \<Rightarrow> params \<times> ustring list \<Rightarrow> py_error + (params \<times> ustring list)" where
  "prompt_missing str_float str_int param st =
     (case map_of (fst st) param of
        Some v \<Rightarrow> Inr st
      | None \<Rightarrow>
          (case prompt_for_parameter str_float str_int param (snd st) of
             Inl e \<Rightarrow> Inl e
           | Inr (v, rest) \<Rightarrow> Inr (AList.update param v (fst st), rest)))"

fun prompt_all ::
  "(ustring \<Rightarrow> real option) \<Rightarrow> (ustring \<Rightarrow> int option) \<Rightarrow> ustring list
     \<Rightarrow> params \<times> ustring list \<Rightarrow> py_error + (params \<times> ustring list)" where
  "prompt_all str_float str_int [] st = Inr st"
| "prompt_all str_float str_int (param # names) st =
     (case prompt_missing str_float str_int param st of
        Inl e \<Rightarrow> Inl e
      | Inr st' \<Rightarrow> prompt_all str_float str_int names st')"

text \<open>
  \<open>_process_point_survey\<close>: the loop over the trajectories of the rule set, each
  tested by substring against the lowercased trajectory parameter.
\<close>

fun dependent_loop ::
  "(ustring \<Rightarrow> real option) \<Rightarrow> (ustring \<Rightarrow> int option) \<Rightarrow> ustring
     \<Rightarrow> (ustring \<times> ustring list) list
     \<Rightarrow> params \<times> ustring list \<Rightarrow> py_error + (params \<times> ustring list)" where
  "dependent_loop str_float str_int trajectory [] st = Inr st"
| "dependent_loop str_float str_int trajectory ((traj, dependent_params) # others) st =
     (if str_contains traj trajectory then
        (case prompt_all str_float str_int dependent_params st of
           Inl e \<Rightarrow> Inl e
         | Inr st' \<Rightarrow> dependent_loop str_float str_int trajectory others st')
      else dependent_loop str_float str_int trajectory others st)"

definition process_point_survey ::
  "rules \<Rightarrow> (ustring \<Rightarrow> real option) \<Rightarrow> (ustring \<Rightarrow> int option)
     \<Rightarrow> params \<times> ustring list \<Rightarrow> py_error + (params \<times> ustring list)" where
  "process_point_survey rs str_float str_int st =
     (case prompt_missing str_float str_int s_trajectory st of
        Inl e \<Rightarrow> Inl e
      | Inr st1 \<Rightarrow>
          (case map_of (trajectory_dependent rs) s_point_survey of
             None \<Rightarrow> Inr st1
           | Some deps \<Rightarrow>
               (case dict_item (fst st1) s_trajectory of
                  Inl e \<Rightarrow> Inl e
                | Inr (VStr t) \<Rightarrow> dependent_loop str_float str_int (py_lower t) deps st1
                | Inr _ \<Rightarrow> Inl AttributeError)))"

text \<open>
  \<open>_process_height_depth\<close>.  The \<open>float\<close> of the depth is outside every
  \<open>try\<close>: its errors leave the validator as they are.
\<close>

definition process_height_depth ::
  "rules \<Rightarrow> (ustring \<Rightarrow> real option) \<Rightarrow> (ustring \<Rightarrow> int option) \<Rightarrow> ustring
     \<Rightarrow> params \<times> ustring list \<Rightarrow> py_error + (params \<times> ustring list)" where
  "process_height_depth rs str_float str_int cmd_name st =
     (let ps = fst st;
          has_height = (map_of ps s_height \<noteq> None);
          has_depth = (map_of ps s_depth \<noteq> None) in
      if has_height \<and> has_depth then Inr (AList.delete s_depth ps, snd st)
      else if has_depth then
        (case dict_item ps s_depth of
           Inl e \<Rightarrow> Inl e
         | Inr d0 \<Rightarrow>
             (case py_float str_float d0 of
                Inl e \<Rightarrow> Inl e
              | Inr d \<Rightarrow>
                  Inr (AList.delete s_depth (AList.update s_height (VFloat (- \<bar>d\<bar>)) ps),
                       snd st)))
      else if \<not> has_height then
        (case map_of (required_keys rs) cmd_name of
           None \<Rightarrow> Inr st
         | Some names \<Rightarrow>
             (if s_height \<in> set names
              then prompt_missing str_float str_int s_height st
              else Inr st))
      else Inr st)"

definition check_required_parameters ::
  "rules \<Rightarrow> (ustring \<Rightarrow> real option) \<Rightarrow> (ustring \<Rightarrow> int option) \<Rightarrow> ustring
     \<Rightarrow> params \<times> ustring list \<Rightarrow> py_error + (params \<times> ustring list)" where
  "check_required_parameters rs str_float str_int cmd_name st =
     (case map_of (required_keys rs) cmd_name of
        None \<Rightarrow> Inr st
      | Some names \<Rightarrow> prompt_all str_float str_int names st)"

fun apply_defaults :: "params \<Rightarrow> params \<Rightarrow> params" where
  "apply_defaults [] ps = ps"
| "apply_defaults ((param, default_value) # others) ps =
     apply_defaults others
       (if map_of ps param = None then AList.update param default_value ps else ps)"

definition apply_optional_parameters :: "rules \<Rightarrow> ustring \<Rightarrow> params \<Rightarrow> params" where
  "apply_optional_parameters rs cmd_name ps =
     (case map_of (optional_keys rs) cmd_name of
        None \<Rightarrow> ps
      | Some defaults \<Rightarrow> apply_defaults defaults ps)"

text \<open>
  \<open>_convert_parameter_types\<close>: \<open>None\<close> and a value of the declared type are left
  alone; every \<open>ValueError\<close> or \<open>TypeError\<close> of a conversion is raised again as a
  \<open>ValueError\<close> that names the parameter.
\<close>

definition convert_value ::
  "(ustring \<Rightarrow> real option) \<Rightarrow> (ustring \<Rightarrow> int option) \<Rightarrow> ustring \<Rightarrow> pyval
     \<Rightarrow> py_error + pyval" where
  "convert_value str_float str_int param_name v =
     (case PARAM_TYPES param_name of
        None \<Rightarrow> Inr v
      | Some TFloat \<Rightarrow>
          (case v of
             VNone \<Rightarrow> Inr v
           | VFloat r \<Rightarrow> Inr v
           | VInt i \<Rightarrow> Inr (VFloat (of_int i))
           | VStr t \<Rightarrow> (case str_float t of None \<Rightarrow> Inl ValueError | Some r \<Rightarrow> Inr (VFloat r))
           | VPoints d \<Rightarrow> Inl ValueError)
      | Some TInt \<Rightarrow>
          (case v of
             VNone \<Rightarrow> Inr v
           | VInt i \<Rightarrow> Inr v
           | VFloat r \<Rightarrow> Inr (VInt (py_int r))
           | VStr t \<Rightarrow> (case str_int t of None \<Rightarrow> Inl ValueError | Some i \<Rightarrow> Inr (VInt i))
           | VPoints d \<Rightarrow> Inl ValueError))"

fun convert_parameter_types ::
  "(ustring \<Rightarrow> real option) \<Rightarrow> (ustring \<Rightarrow> int option) \<Rightarrow> params \<Rightarrow> py_error + params" where
  "convert_parameter_types str_float str_int [] = Inr []"
| "convert_parameter_types str_float str_int ((param_name, v) # others) =
     (case convert_value str_float str_int param_name v of
        Inl e \<Rightarrow> Inl e
      | Inr v' \<Rightarrow>
          (case convert_parameter_types str_float str_int others of
             Inl e \<Rightarrow> Inl e
           | Inr others' \<Rightarrow> Inr ((param_name, v') # others')))"

text \<open>
  \<open>_validate_command\<close> for a function command \<open>{cmd_name: params}\<close>; the result
  holds the validated parameters and the lines not read.  (A condition record and the
  empty dictionary are not commands and are not modelled here.)
\<close>

definition point_survey_bootstrap ::
  "rules \<Rightarrow> (ustring \<Rightarrow> real option) \<Rightarrow> (ustring \<Rightarrow> int option) \<Rightarrow> ustring
     \<Rightarrow> params \<times> ustring list \<Rightarrow> py_error + (params \<times> ustring list)" where
  "point_survey_bootstrap rs str_float str_int cmd_name st =
     (if cmd_name = s_point_survey then process_point_survey rs str_float str_int st
      else Inr st)"

definition validate_command ::
  "rules \<Rightarrow> (ustring \<Rightarrow> real option) \<Rightarrow> (ustring \<Rightarrow> int option) \<Rightarrow> ustring
     \<Rightarrow> params \<times> ustring list \<Rightarrow> py_error + (params \<times> ustring list)" where
  "validate_command rs str_float str_int cmd_name st =
     (case point_survey_bootstrap rs str_float str_int cmd_name st of
        Inl e \<Rightarrow> Inl e
      | Inr st1 \<Rightarrow>
          (case process_height_depth rs str_float str_int cmd_name st1 of
             Inl e \<Rightarrow> Inl e
           | Inr st2 \<Rightarrow>
               (case check_required_parameters rs str_float str_int cmd_name st2 of
                  Inl e \<Rightarrow> Inl e
                | Inr st3 \<Rightarrow>
                    (case convert_parameter_types str_float str_int
                            (apply_optional_parameters rs cmd_name (fst st3)) of
                       Inl e \<Rightarrow> Inl e
                     | Inr ps \<Rightarrow> Inr (ps, snd st3)))))"

text \<open>The names a rule set lists for a command, for the statements below.\<close>

definition required_names :: "rules \<Rightarrow> ustring \<Rightarrow> ustring list" where
  "required_names rs cmd_name =
     (case map_of (required_keys rs) cmd_name of None \<Rightarrow> [] | Some names \<Rightarrow> names)"

definition optional_names :: "rules \<Rightarrow> ustring \<Rightarrow> ustring list" where
  "optional_names rs cmd_name =
     (case map_of (optional_keys rs) cmd_name of None \<Rightarrow> [] | Some defaults \<Rightarrow> map fst defaults)"

section \<open>Variable table (class Variables)\<close>





subsection \<open>The arithmetic fragment of \<open>eval\<close>\<close>

























subsection \<open>The table\<close>





section \<open>Plan emitter (class Translator)\<close>

text \<open>
  A device action.  The side-scan sonar's switch-on action carries the fixed settings
  \<open>SidesonarDist = 100\<close>, \<open>SidesonarPulse = 1500\<close>, \<open>SidesonarDecimation = 1\<close>,
  \<open>SidesonarRawData = False\<close>, the camera's the fixed \<open>PhotoPeriod = 2\<close>,
  \<open>PhotoLight = 100\<close>, \<open>PhotoExposure = 7000\<close>, \<open>PhotoGain = 1\<close>,
  \<open>PhotoAuto = "true"\<close>.  \<open>TackPoint\<close> holds \<open>TackPointUp\<close>,
  \<open>TackPointVelocity\<close>, \<open>TackPointLon\<close>, \<open>TackPointLat\<close>.
\<close>

datatype task =
    TackPoint pyval pyval real real
  | SidesonarOn | SidesonarPause | SidesonarResume | SidesonarOff
  | MBEOnHf | MBEPause | MBEOff
  | PhotoOn

definition movement :: "pyval \<Rightarrow> pyval \<Rightarrow> real \<Rightarrow> real \<Rightarrow> task" where
  "movement depth speed lon lat = TackPoint depth speed lon lat"

text \<open>
  \<open>Translator.action\<close>: a method that falls off its \<open>if\<close> chain returns \<open>None\<close>.
\<close>

definition action :: "pyval \<Rightarrow> ustring \<Rightarrow> task option" where
  "action device status =
     (if device = VStr s_gbo then
        (if status = s_on then Some SidesonarOn
         else if status = s_pause then Some SidesonarPause
         else if status = s_resume then Some SidesonarResume
         else if status = s_off then Some SidesonarOff
         else None)
      else if device = VStr s_mle then
        (if status = s_on then Some MBEOnHf
         else if status = s_pause then Some MBEPause
         else if status = s_off then Some MBEOff
         else None)
      else if device = VStr s_camera then Some PhotoOn
      else None)"

text \<open>
  The two inner loops over the waypoints.  The flag \<open>device\<close> of the first branch is
  set before the loops and lives across them.  The height and the speed are looked up
  at every waypoint, the height first.
\<close>

fun toggled_tasks :: "params \<Rightarrow> pyval \<Rightarrow> bool \<Rightarrow> point list \<Rightarrow> py_error + task option list" where
  "toggled_tasks v dev device [] = Inr []"
| "toggled_tasks v dev device (i # rest) =
     (case dict_item v s_height of
        Inl e \<Rightarrow> Inl e
      | Inr h \<Rightarrow>
          (case dict_item v s_speed of
             Inl e \<Rightarrow> Inl e
           | Inr sp \<Rightarrow>
               (case toggled_tasks v dev (\<not> device) rest of
                  Inl e \<Rightarrow> Inl e
                | Inr ts \<Rightarrow>
                    Inr (Some (movement h sp (fst i) (snd i))
                         # (if \<not> device then action dev s_pause else action dev s_resume)
                         # ts))))"

fun plain_tasks :: "params \<Rightarrow> point list \<Rightarrow> py_error + task option list" where
  "plain_tasks v [] = Inr []"
| "plain_tasks v (i # rest) =
     (case dict_item v s_height of
        Inl e \<Rightarrow> Inl e
      | Inr h \<Rightarrow>
          (case dict_item v s_speed of
             Inl e \<Rightarrow> Inl e
           | Inr sp \<Rightarrow>
               (case plain_tasks v rest of
                  Inl e \<Rightarrow> Inl e
                | Inr ts \<Rightarrow> Inr (Some (movement h sp (fst i) (snd i)) # ts))))"

text \<open>
  \<open>command[key]["coordinates"].items()\<close>: the value must be the dictionary of
  waypoint lists; every entry's list is walked in turn.
\<close>

definition coordinate_items :: "params \<Rightarrow> py_error + point list" where
  "coordinate_items v =
     (case dict_item v s_coordinates of
        Inl e \<Rightarrow> Inl e
      | Inr (VPoints d) \<Rightarrow> Inr (concat (map snd d))
      | Inr _ \<Rightarrow> Inl AttributeError)"

text \<open>The body of the loop over the commands, for one command.\<close>

definition wants_toggle :: "ustring \<Rightarrow> params \<Rightarrow> py_error + bool" where
  "wants_toggle key v =
     (if key = s_figure_survey then Inr True
      else if key = s_point_survey then
        (case dict_item v s_trajectory of
           Inl e \<Rightarrow> Inl e
         | Inr t \<Rightarrow> Inr (t = VStr s_meander))
      else Inr False)"

definition command_tasks :: "command \<Rightarrow> py_error + task option list" where
  "command_tasks c =
     (case c of
        Command key v \<Rightarrow>
          (case wants_toggle key v of
             Inl e \<Rightarrow> Inl e
           | Inr True \<Rightarrow>
               (case dict_item v s_device of
                  Inl e \<Rightarrow> Inl e
                | Inr dev \<Rightarrow>
                    (case coordinate_items v of
                       Inl e \<Rightarrow> Inl e
                     | Inr pts \<Rightarrow>
                         (case toggled_tasks v dev False pts of
                            Inl e \<Rightarrow> Inl e
                          | Inr ts \<Rightarrow> Inr ([action dev s_on] @ ts @ [action dev s_off]))))
           | Inr False \<Rightarrow>
               (if key = s_point_survey then
                  (case dict_item v s_device of
                     Inl e \<Rightarrow> Inl e
                   | Inr dev \<Rightarrow>
                       (case coordinate_items v of
                          Inl e \<Rightarrow> Inl e
                        | Inr pts \<Rightarrow>
                            (case plain_tasks v pts of
                               Inl e \<Rightarrow> Inl e
                             | Inr ts \<Rightarrow> Inr ([action dev s_on] @ ts @ [action dev s_off]))))
                else Inr []))
      | Condition t \<Rightarrow> Inr []
      | EmptyCommand \<Rightarrow> Inr [])"

text \<open>
  \<open>Translator.__init__\<close>: the task list of the mission plan (the list is then stored
  in the plan and written to a file).
\<close>

fun translator_tasks :: "command list \<Rightarrow> py_error + task option list" where
  "translator_tasks [] = Inr []"
| "translator_tasks (c # cs) =
     (case command_tasks c of
        Inl e \<Rightarrow> Inl e
      | Inr ts \<Rightarrow>
          (case translator_tasks cs of
             Inl e \<Rightarrow> Inl e
           | Inr rest \<Rightarrow> Inr (ts @ rest)))"

section \<open>Properties\<close>








text \<open>
  C9.  With a zero metric displacement the planar offset returns the input coordinates
  rounded to six decimal places (as the pair longitude, latitude).
\<close>

theorem offset_zero_identity:
  assumes "\<bar>lat\<bar> < 90"
  shows "add_meters_to_coordinates lat lon 0 0 = (py_round lon 6, py_round lat 6)"
  using assms by (simp add: add_meters_to_coordinates_def Let_def)

theorem offset_zero_identity_witness:
  "\<bar>45 :: real\<bar> < 90 \<and> add_meters_to_coordinates 45 30 0 0 = (py_round 30 6, py_round 45 6)"
  using offset_zero_identity [of 45 30] by simp

lemma length_concat_pairs:
  "length (concat (map (\<lambda>i. [a i, b i]) [0 ..< n])) = 2 * n"
  by (induction n) simp_all





lemma spiral_loop_stop:
  assumes "max_radius_m < radius"
  shows "spiral_loop clon clat max_radius_m S d N radius points = Some (Inr points)"
  using assms by (subst spiral_loop.simps) simp

lemma spiral_loop_step:
  assumes "radius \<le> max_radius_m" and "S \<noteq> 0" and "N \<noteq> 0"
  shows "spiral_loop clon clat max_radius_m S d N radius points =
           spiral_loop clon clat max_radius_m S d N (radius + S / 16)
             (if int (length points) mod N = 0
              then points @ [add_meters_to_coordinates clat clon
                     ((radius + S / 16) * sin (d * 2 * pi * (radius + S / 16) / S))
                     ((radius + S / 16) * cos (d * 2 * pi * (radius + S / 16) / S))]
              else points)"
  using assms by (subst spiral_loop.simps) (simp add: Let_def ANGLE_STEP_def)





lemma spiral_loop_no_append_bounded:
  assumes "0 < S" and "N \<noteq> 0" and "int (length points) mod N \<noteq> 0"
  shows "max_radius_m - radius < of_nat k * (S / 16)
     \<Longrightarrow> spiral_loop clon clat max_radius_m S d N radius points = Some (Inr points)"
proof (induction k arbitrary: radius)
  case 0
  then have "max_radius_m < radius" by simp
  then show ?case by (simp add: spiral_loop_stop)
next
  case (Suc k)
  show ?case
  proof (cases "radius \<le> max_radius_m")
    case False
    then show ?thesis by (simp add: spiral_loop_stop)
  next
    case True
    from Suc.prems have "max_radius_m - (radius + S / 16) < of_nat k * (S / 16)"
      by (simp add: algebra_simps)
    from Suc.IH [OF this] True assms show ?thesis
      by (simp add: spiral_loop_step)
  qed
qed

lemma spiral_decimation_keeps_nothing:
  assumes "0 < spacing_m" and "2 \<le> point_freq"
  shows "generate_spiral center_lon center_lat max_radius_m spacing_m clockwise point_freq
           = Some (Inr [(center_lon, center_lat)])"
proof -
  obtain k :: nat where "(max_radius_m - 0) / (spacing_m / 16) < of_nat k"
    using reals_Archimedean2 by blast
  with assms(1) have b: "max_radius_m - 0 < of_nat k * (spacing_m / 16)"
    by (simp add: pos_divide_less_eq)
  from assms(2) have N: "point_freq \<noteq> 0" by simp
  from assms(2) have "int (length [(center_lon, center_lat)]) mod point_freq \<noteq> 0"
    by simp
  from spiral_loop_no_append_bounded [OF assms(1) N this b] show ?thesis
    by (simp add: generate_spiral_def)
qed

lemma spiral_loop_every_point_bounded:
  assumes "0 < S"
  shows "max_radius_m - radius < of_nat k * (S / 16)
     \<Longrightarrow> \<exists>pts. spiral_loop clon clat max_radius_m S d 1 radius points = Some (Inr pts)
            \<and> length pts = length points
                 + (if radius \<le> max_radius_m
                    then nat (\<lfloor>(max_radius_m - radius) / (S / 16)\<rfloor> + 1) else 0)"
proof (induction k arbitrary: radius points)
  case 0
  then have "max_radius_m < radius" by simp
  then show ?case by (simp add: spiral_loop_stop)
next
  case (Suc k)
  show ?case
  proof (cases "radius \<le> max_radius_m")
    case False
    then show ?thesis by (simp add: spiral_loop_stop)
  next
    case True
    define x where "x = (max_radius_m - radius) / (S / 16)"
    define p where "p = add_meters_to_coordinates clat clon
                     ((radius + S / 16) * sin (d * 2 * pi * (radius + S / 16) / S))
                     ((radius + S / 16) * cos (d * 2 * pi * (radius + S / 16) / S))"
    from True assms have x0: "0 \<le> x" by (simp add: x_def)
    have xm: "(max_radius_m - (radius + S / 16)) / (S / 16) = x - 1"
      using assms by (simp add: x_def field_simps)
    have le: "radius + S / 16 \<le> max_radius_m \<longleftrightarrow> 1 \<le> x"
      using assms by (simp add: x_def field_simps)
    from Suc.prems have "max_radius_m - (radius + S / 16) < of_nat k * (S / 16)"
      by (simp add: algebra_simps)
    from Suc.IH [OF this, of "points @ [p]"]
    obtain pts where
      run: "spiral_loop clon clat max_radius_m S d 1 (radius + S / 16) (points @ [p]) = Some (Inr pts)"
      and len: "length pts = length (points @ [p])
                 + (if 1 \<le> x then nat (\<lfloor>x - 1\<rfloor> + 1) else 0)"
      unfolding xm le by blast
    have step: "spiral_loop clon clat max_radius_m S d 1 radius points = Some (Inr pts)"
      using True assms run by (simp add: spiral_loop_step p_def)
    have "length (points @ [p]) + (if 1 \<le> x then nat (\<lfloor>x - 1\<rfloor> + 1) else 0)
            = length points + nat (\<lfloor>x\<rfloor> + 1)"
    proof (cases "1 \<le> x")
      case True
      then have "1 \<le> \<lfloor>x\<rfloor>" by linarith
      then show ?thesis using True by (simp add: nat_add_distrib)
    next
      case False
      with x0 have "\<lfloor>x\<rfloor> = 0" by linarith
      with False show ?thesis by simp
    qed
    with len step True show ?thesis by (simp add: x_def)
  qed
qed

lemma spiral_every_point_count:
  assumes "0 < spacing_m" and "0 \<le> max_radius_m"
  shows "\<exists>pts. generate_spiral center_lon center_lat max_radius_m spacing_m clockwise 1 = Some (Inr pts)
           \<and> length pts = 1 + nat (\<lfloor>max_radius_m / (spacing_m / 16)\<rfloor> + 1)"
proof -
  obtain k :: nat where "(max_radius_m - 0) / (spacing_m / 16) < of_nat k"
    using reals_Archimedean2 by blast
  with assms(1) have b: "max_radius_m - 0 < of_nat k * (spacing_m / 16)"
    by (simp add: pos_divide_less_eq)
  from spiral_loop_every_point_bounded
         [OF assms(1) b, of center_lon center_lat "if clockwise then 1 else - 1"
            "[(center_lon, center_lat)]"] assms(2)
  show ?thesis
    unfolding generate_spiral_def by simp
qed

text \<open>
  C6.  The decimation test of \<open>generate_spiral\<close> reads the length of the output
  list, which only grows when a point is kept: starting from the one-element list that
  holds the centre, a decimation factor of two or more never keeps a point.  For a
  radius of 10 m and a spacing of 5 m the factor 1 gives the centre and 33 spiral
  points, the factor 2 gives the centre alone.
\<close>

theorem spiral_decimation_two:
  "generate_spiral 0 0 10 5 True 2 = Some (Inr [(0, 0)])
   \<and> (\<exists>pts. generate_spiral 0 0 10 5 True 1 = Some (Inr pts) \<and> length pts = 34)"
proof
  show "generate_spiral 0 0 10 5 True 2 = Some (Inr [(0, 0)])"
    by (rule spiral_decimation_keeps_nothing) simp_all
  show "\<exists>pts. generate_spiral 0 0 10 5 True 1 = Some (Inr pts) \<and> length pts = 34"
    using spiral_every_point_count [of 5 10 0 0 True] by simp
qed

lemma toggled_tasks_structure:
  assumes "map_of v s_height = Some h" and "map_of v s_speed = Some sp"
  shows "\<exists>ts. toggled_tasks v dev device pts = Inr ts
          \<and> length ts = 2 * length pts
          \<and> (\<forall>i < length pts.
                ts ! (2 * i) = Some (TackPoint h sp (fst (pts ! i)) (snd (pts ! i)))
              \<and> ts ! (2 * i + 1)
                  = action dev (if even i = (\<not> device) then s_pause else s_resume))"
proof (induction pts arbitrary: device)
  case Nil
  show ?case by simp
next
  case (Cons p pts)
  from Cons.IH [of "\<not> device"] obtain ts where
    run: "toggled_tasks v dev (\<not> device) pts = Inr ts"
    and len: "length ts = 2 * length pts"
    and nth: "\<And>i. i < length pts \<Longrightarrow>
                ts ! (2 * i) = Some (TackPoint h sp (fst (pts ! i)) (snd (pts ! i)))
              \<and> ts ! (2 * i + 1)
                  = action dev (if even i = (\<not> \<not> device) then s_pause else s_resume)"
    by blast
  let ?ts = "Some (movement h sp (fst p) (snd p))
             # (if \<not> device then action dev s_pause else action dev s_resume) # ts"
  have r: "toggled_tasks v dev device (p # pts) = Inr ?ts"
    using assms run by (simp add: dict_item_def)
  have l: "length ?ts = 2 * length (p # pts)"
    using len by simp
  have n: "?ts ! (2 * i) = Some (TackPoint h sp (fst ((p # pts) ! i)) (snd ((p # pts) ! i)))
              \<and> ?ts ! (2 * i + 1)
                  = action dev (if even i = (\<not> device) then s_pause else s_resume)"
    if "i < length (p # pts)" for i
  proof (cases i)
    case 0
    then show ?thesis by (simp add: movement_def)
  next
    case (Suc j)
    with that have "j < length pts" by simp
    from nth [OF this] Suc show ?thesis by simp
  qed
  from r l n show ?case by blast
qed

lemma command_tasks_toggle:
  assumes "key = s_figure_survey
           \<or> (key = s_point_survey \<and> map_of v s_trajectory = Some (VStr s_meander))"
    and "map_of v s_device = Some dev"
    and "map_of v s_height = Some h" and "map_of v s_speed = Some sp"
    and "map_of v s_coordinates = Some (VPoints [(k, pts)])"
  shows "\<exists>ts. command_tasks (Command key v) = Inr ts
          \<and> length ts = 2 * length pts + 2
          \<and> ts ! 0 = action dev s_on
          \<and> (\<forall>i < length pts.
                ts ! (2 * i + 1) = Some (TackPoint h sp (fst (pts ! i)) (snd (pts ! i)))
              \<and> ts ! (2 * i + 2) = action dev (if even i then s_pause else s_resume))
          \<and> ts ! (2 * length pts + 1) = action dev s_off"
proof -
  from toggled_tasks_structure [OF assms(3,4), of dev False pts] obtain ts where
    run: "toggled_tasks v dev False pts = Inr ts"
    and len: "length ts = 2 * length pts"
    and nth: "\<And>i. i < length pts \<Longrightarrow>
                ts ! (2 * i) = Some (TackPoint h sp (fst (pts ! i)) (snd (pts ! i)))
              \<and> ts ! (2 * i + 1) = action dev (if even i then s_pause else s_resume)"
    by auto
  have w: "wants_toggle key v = Inr True"
    using assms(1) by (auto simp: wants_toggle_def dict_item_def)
  have c: "coordinate_items v = Inr pts"
    using assms(5) by (simp add: coordinate_items_def dict_item_def)
  let ?ts = "[action dev s_on] @ ts @ [action dev s_off]"
  have r: "command_tasks (Command key v) = Inr ?ts"
    using w c run assms(2) by (simp add: command_tasks_def dict_item_def)
  have n: "?ts ! (2 * i + 1) = Some (TackPoint h sp (fst (pts ! i)) (snd (pts ! i)))
              \<and> ?ts ! (2 * i + 2) = action dev (if even i then s_pause else s_resume)"
    if "i < length pts" for i
  proof -
    from that len have "2 * i < length ts" "2 * i + 1 < length ts" by simp_all
    with nth [OF that] show ?thesis by (simp add: nth_append)
  qed
  have "?ts ! (2 * length pts + 1) = action dev s_off"
    using len by (simp add: nth_append)
  with r n len show ?thesis by auto
qed

lemma action_gbo:
  "action (VStr s_gbo) s_on = Some SidesonarOn"
  "action (VStr s_gbo) s_pause = Some SidesonarPause"
  "action (VStr s_gbo) s_resume = Some SidesonarResume"
  "action (VStr s_gbo) s_off = Some SidesonarOff"
  by (simp_all add: action_def keyword_defs)

lemma action_mle:
  "action (VStr s_mle) s_on = Some MBEOnHf"
  "action (VStr s_mle) s_pause = Some MBEPause"
  "action (VStr s_mle) s_resume = None"
  "action (VStr s_mle) s_off = Some MBEOff"
  by (simp_all add: action_def keyword_defs)

lemma action_None_iff:
  "action dev st = None \<longleftrightarrow>
     (dev = VStr s_gbo \<and> st \<notin> {s_on, s_pause, s_resume, s_off})
   \<or> (dev = VStr s_mle \<and> st \<notin> {s_on, s_pause, s_off})
   \<or> dev \<notin> {VStr s_gbo, VStr s_mle, VStr s_camera}"
  by (auto simp: action_def keyword_defs)

text \<open>
  C2 (as amended).  For a figure survey, and for a point survey whose trajectory parameter
  is exactly the meander keyword, the emitted plan has \<open>2 * W + 2\<close> entries for \<open>W\<close>
  waypoints: the instrument lookup for "on", then for each waypoint a movement action
  immediately followed by the instrument lookup for "pause" or "resume", alternating
  and starting with "pause", then the instrument lookup for "off".  For the side-scan
  sonar these lookups are the four sonar actions.
\<close>

theorem survey_plan_interleaving:
  assumes "key = s_figure_survey
           \<or> (key = s_point_survey \<and> map_of v s_trajectory = Some (VStr s_meander))"
    and "map_of v s_device = Some dev"
    and "map_of v s_height = Some h" and "map_of v s_speed = Some sp"
    and "map_of v s_coordinates = Some (VPoints [(k, pts)])"
  shows "\<exists>ts. command_tasks (Command key v) = Inr ts
          \<and> length ts = 2 * length pts + 2
          \<and> ts ! 0 = action dev s_on
          \<and> (\<forall>i < length pts.
                ts ! (2 * i + 1) = Some (TackPoint h sp (fst (pts ! i)) (snd (pts ! i)))
              \<and> ts ! (2 * i + 2) = action dev (if even i then s_pause else s_resume))
          \<and> ts ! (2 * length pts + 1) = action dev s_off
          \<and> (dev = VStr s_gbo \<longrightarrow>
                action dev s_on = Some SidesonarOn \<and> action dev s_pause = Some SidesonarPause
              \<and> action dev s_resume = Some SidesonarResume
              \<and> action dev s_off = Some SidesonarOff)"
  using command_tasks_toggle [OF assms] action_gbo by auto

theorem survey_plan_interleaving_witness:
  "\<exists>ts. command_tasks (Command s_figure_survey
      [(s_device, VStr s_gbo), (s_height, VFloat 5), (s_speed, VFloat 1),
       (s_coordinates, VPoints [(s_coordinates, [(10, 20), (10, 21)])])]) = Inr ts
     \<and> length ts = 6
     \<and> ts ! 0 = Some SidesonarOn
     \<and> ts ! 1 = Some (TackPoint (VFloat 5) (VFloat 1) 10 20)
     \<and> ts ! 2 = Some SidesonarPause
     \<and> ts ! 3 = Some (TackPoint (VFloat 5) (VFloat 1) 10 21)
     \<and> ts ! 4 = Some SidesonarResume
     \<and> ts ! 5 = Some SidesonarOff"
proof -
  let ?pts = "[(10::real, 20::real), (10, 21)]"
  let ?v = "[(s_device, VStr s_gbo), (s_height, VFloat 5), (s_speed, VFloat 1),
       (s_coordinates, VPoints [(s_coordinates, ?pts)])]"
  have h1: "s_figure_survey = s_figure_survey
           \<or> (s_figure_survey = s_point_survey \<and> map_of ?v s_trajectory = Some (VStr s_meander))"
    by simp
  have h2: "map_of ?v s_device = Some (VStr s_gbo)" by simp
  have h3: "map_of ?v s_height = Some (VFloat 5)" by (simp add: keyword_defs)
  have h4: "map_of ?v s_speed = Some (VFloat 1)" by (simp add: keyword_defs)
  have h5: "map_of ?v s_coordinates = Some (VPoints [(s_coordinates, ?pts)])"
    by (simp add: keyword_defs)
  from survey_plan_interleaving [OF h1 h2 h3 h4 h5] obtain ts where
    run: "command_tasks (Command s_figure_survey ?v) = Inr ts"
    and len: "length ts = 2 * length ?pts + 2"
    and first: "ts ! 0 = action (VStr s_gbo) s_on"
    and nth: "\<And>i. i < length ?pts \<Longrightarrow>
                ts ! (2 * i + 1) = Some (TackPoint (VFloat 5) (VFloat 1)
                    (fst (?pts ! i)) (snd (?pts ! i)))
              \<and> ts ! (2 * i + 2) = action (VStr s_gbo) (if even i then s_pause else s_resume)"
    and last: "ts ! (2 * length ?pts + 1) = action (VStr s_gbo) s_off"
    by blast
  have l: "length ts = 6" using len by simp
  have a: "ts ! 0 = Some SidesonarOn" using first by (simp add: action_gbo)
  have b: "ts ! 1 = Some (TackPoint (VFloat 5) (VFloat 1) 10 20) \<and> ts ! 2 = Some SidesonarPause"
    using nth [of 0] by (simp add: action_gbo numeral_2_eq_2)
  have c: "ts ! 3 = Some (TackPoint (VFloat 5) (VFloat 1) 10 21) \<and> ts ! 4 = Some SidesonarResume"
    using nth [of 1] by (simp add: action_gbo numeral_eq_Suc)
  have d: "ts ! 5 = Some SidesonarOff" using last by (simp add: action_gbo)
  from run l a b c d show ?thesis by blast
qed

lemma plain_tasks_eval:
  assumes "map_of v s_height = Some h" and "map_of v s_speed = Some sp"
  shows "plain_tasks v pts = Inr (map (\<lambda>i. Some (TackPoint h sp (fst i) (snd i))) pts)"
  using assms by (induction pts) (simp_all add: dict_item_def movement_def)

lemma script_point_survey_tasks:
  "command_tasks (Command s_point_survey
      [(s_device, VStr s_gbo), (s_height, VFloat 5), (s_speed, VFloat 1),
       (s_coordinates, VPoints [(s_coordinates,
          [(10, 20), (10, 21), (11, 21), (11, 20), (12, 20), (12, 21)])]),
       (s_trajectory, VStr (s_meander @ [44, 32] @ s_vertical)),
       (s_length, VFloat 20), (s_width, VFloat 10), (s_spacing, VFloat 5)])
     = Inr [Some SidesonarOn,
            Some (TackPoint (VFloat 5) (VFloat 1) 10 20),
            Some (TackPoint (VFloat 5) (VFloat 1) 10 21),
            Some (TackPoint (VFloat 5) (VFloat 1) 11 21),
            Some (TackPoint (VFloat 5) (VFloat 1) 11 20),
            Some (TackPoint (VFloat 5) (VFloat 1) 12 20),
            Some (TackPoint (VFloat 5) (VFloat 1) 12 21),
            Some SidesonarOff]"
proof -
  let ?pts = "[(10::real, 20::real), (10, 21), (11, 21), (11, 20), (12, 20), (12, 21)]"
  let ?v = "[(s_device, VStr s_gbo), (s_height, VFloat 5), (s_speed, VFloat 1),
       (s_coordinates, VPoints [(s_coordinates, ?pts)]),
       (s_trajectory, VStr (s_meander @ [44, 32] @ s_vertical)),
       (s_length, VFloat 20), (s_width, VFloat 10), (s_spacing, VFloat 5)]"
  have t: "map_of ?v s_trajectory = Some (VStr (s_meander @ [44, 32] @ s_vertical))"
    by (simp add: keyword_defs)
  have ne: "s_meander @ [44, 32] @ s_vertical \<noteq> s_meander" by simp
  have k: "s_point_survey \<noteq> s_figure_survey" by (simp add: keyword_defs)
  have w: "wants_toggle s_point_survey ?v = Inr False"
    unfolding wants_toggle_def dict_item_def t using ne k by simp
  have h2: "map_of ?v s_device = Some (VStr s_gbo)" by simp
  have h3: "map_of ?v s_height = Some (VFloat 5)" by (simp add: keyword_defs)
  have h4: "map_of ?v s_speed = Some (VFloat 1)" by (simp add: keyword_defs)
  have h5: "map_of ?v s_coordinates = Some (VPoints [(s_coordinates, ?pts)])"
    by (simp add: keyword_defs)
  have c: "coordinate_items ?v = Inr ?pts"
    unfolding coordinate_items_def dict_item_def h5 by simp
  have d: "dict_item ?v s_device = Inr (VStr s_gbo)"
    unfolding dict_item_def h2 by simp
  show ?thesis
    unfolding command_tasks_def command.case w d c plain_tasks_eval [OF h3 h4]
    by (simp add: action_gbo)
qed

lemma camera_figure_survey_tasks:
  "command_tasks (Command s_figure_survey
      [(s_device, VStr s_camera), (s_height, VFloat 5), (s_speed, VFloat 1),
       (s_coordinates, VPoints [(s_coordinates, [(10, 20)])])])
     = Inr [Some PhotoOn, Some (TackPoint (VFloat 5) (VFloat 1) 10 20), Some PhotoOn,
            Some PhotoOn]"
proof -
  let ?v = "[(s_device, VStr s_camera), (s_height, VFloat 5), (s_speed, VFloat 1),
       (s_coordinates, VPoints [(s_coordinates, [(10::real, 20::real)])])]"
  have w: "wants_toggle s_figure_survey ?v = Inr True"
    by (simp add: wants_toggle_def)
  have d: "dict_item ?v s_device = Inr (VStr s_camera)"
    by (simp add: dict_item_def)
  have hd: "dict_item ?v s_height = Inr (VFloat 5)"
    by (simp add: dict_item_def keyword_defs)
  have sd: "dict_item ?v s_speed = Inr (VFloat 1)"
    by (simp add: dict_item_def keyword_defs)
  have c: "coordinate_items ?v = Inr [(10, 20)]"
    by (simp add: coordinate_items_def dict_item_def keyword_defs)
  have a: "action (VStr s_camera) st = Some PhotoOn" for st
    by (simp add: action_def keyword_defs)
  show ?thesis
    by (simp add: command_tasks_def w d c hd sd a movement_def)
qed

text \<open>
  C2 as stated fails in two ways.  The instrument actions are whatever the lookup
  returns for the device: for the camera every status gives the switch-on action, so
  the plan of a figure survey ends with it and holds no pause and no switch-off
  action.  And on the end-to-end script of the specification the trajectory parameter
  of the meander carries its direction ("meander, vertical"); the emitter compares the
  parameter with the bare keyword, so the point survey falls into the branch without
  pause and resume: six waypoints give 8 entries, not 14.
\<close>

theorem survey_plan_counterexample:
  "command_tasks (Command s_figure_survey
      [(s_device, VStr s_camera), (s_height, VFloat 5), (s_speed, VFloat 1),
       (s_coordinates, VPoints [(s_coordinates, [(10, 20)])])])
     = Inr [Some PhotoOn, Some (TackPoint (VFloat 5) (VFloat 1) 10 20), Some PhotoOn,
            Some PhotoOn]
   \<and> command_tasks (Command s_point_survey
      [(s_device, VStr s_gbo), (s_height, VFloat 5), (s_speed, VFloat 1),
       (s_coordinates, VPoints [(s_coordinates,
          [(10, 20), (10, 21), (11, 21), (11, 20), (12, 20), (12, 21)])]),
       (s_trajectory, VStr (s_meander @ [44, 32] @ s_vertical)),
       (s_length, VFloat 20), (s_width, VFloat 10), (s_spacing, VFloat 5)])
     = Inr [Some SidesonarOn,
            Some (TackPoint (VFloat 5) (VFloat 1) 10 20),
            Some (TackPoint (VFloat 5) (VFloat 1) 10 21),
            Some (TackPoint (VFloat 5) (VFloat 1) 11 21),
            Some (TackPoint (VFloat 5) (VFloat 1) 11 20),
            Some (TackPoint (VFloat 5) (VFloat 1) 12 20),
            Some (TackPoint (VFloat 5) (VFloat 1) 12 21),
            Some SidesonarOff]"
  using camera_figure_survey_tasks script_point_survey_tasks by (rule conjI)

text \<open>
  C8 (as amended).  The instrument lookup returns \<open>None\<close> exactly for the pairs listed
  (among them the multibeam echosounder with "resume").  The emitter appends what the
  lookup returns: a plan still has \<open>2 * W + 2\<close> entries, and the entry of such a pair
  is \<open>None\<close> (a null task), not left out.
\<close>

theorem undefined_pair_null_entry:
  assumes "key = s_figure_survey
           \<or> (key = s_point_survey \<and> map_of v s_trajectory = Some (VStr s_meander))"
    and "map_of v s_device = Some dev"
    and "map_of v s_height = Some h" and "map_of v s_speed = Some sp"
    and "map_of v s_coordinates = Some (VPoints [(k, pts)])"
  shows "(action dev st = None \<longleftrightarrow>
            (dev = VStr s_gbo \<and> st \<notin> {s_on, s_pause, s_resume, s_off})
          \<or> (dev = VStr s_mle \<and> st \<notin> {s_on, s_pause, s_off})
          \<or> dev \<notin> {VStr s_gbo, VStr s_mle, VStr s_camera})
       \<and> action (VStr s_mle) s_resume = None
       \<and> (\<exists>ts. command_tasks (Command key v) = Inr ts
             \<and> length ts = 2 * length pts + 2
             \<and> (action dev s_on = None \<longrightarrow> ts ! 0 = None)
             \<and> (\<forall>i < length pts.
                   action dev (if even i then s_pause else s_resume) = None
                   \<longrightarrow> ts ! (2 * i + 2) = None)
             \<and> (action dev s_off = None \<longrightarrow> ts ! (2 * length pts + 1) = None))"
proof -
  from command_tasks_toggle [OF assms] obtain ts where
    "command_tasks (Command key v) = Inr ts"
    "length ts = 2 * length pts + 2"
    "ts ! 0 = action dev s_on"
    "\<And>i. i < length pts \<Longrightarrow> ts ! (2 * i + 2) = action dev (if even i then s_pause else s_resume)"
    "ts ! (2 * length pts + 1) = action dev s_off"
    by blast
  then have "\<exists>ts. command_tasks (Command key v) = Inr ts
             \<and> length ts = 2 * length pts + 2
             \<and> (action dev s_on = None \<longrightarrow> ts ! 0 = None)
             \<and> (\<forall>i < length pts.
                   action dev (if even i then s_pause else s_resume) = None
                   \<longrightarrow> ts ! (2 * i + 2) = None)
             \<and> (action dev s_off = None \<longrightarrow> ts ! (2 * length pts + 1) = None)"
    by auto
  with action_None_iff [of dev st] action_mle(3) show ?thesis by blast
qed

theorem undefined_pair_null_entry_witness:
  "action (VStr s_mle) s_resume = None
   \<and> (\<exists>ts. command_tasks (Command s_figure_survey
          [(s_device, VStr s_mle), (s_height, VFloat 5), (s_speed, VFloat 1),
           (s_coordinates, VPoints [(s_coordinates, [(10, 20), (10, 21)])])]) = Inr ts
        \<and> length ts = 6 \<and> ts ! 4 = None)"
proof -
  let ?pts = "[(10::real, 20::real), (10, 21)]"
  let ?v = "[(s_device, VStr s_mle), (s_height, VFloat 5), (s_speed, VFloat 1),
       (s_coordinates, VPoints [(s_coordinates, ?pts)])]"
  have h1: "s_figure_survey = s_figure_survey
           \<or> (s_figure_survey = s_point_survey \<and> map_of ?v s_trajectory = Some (VStr s_meander))"
    by simp
  have h2: "map_of ?v s_device = Some (VStr s_mle)" by simp
  have h3: "map_of ?v s_height = Some (VFloat 5)" by (simp add: keyword_defs)
  have h4: "map_of ?v s_speed = Some (VFloat 1)" by (simp add: keyword_defs)
  have h5: "map_of ?v s_coordinates = Some (VPoints [(s_coordinates, ?pts)])"
    by (simp add: keyword_defs)
  from undefined_pair_null_entry [OF h1 h2 h3 h4 h5, of s_resume] obtain ts where
    none: "action (VStr s_mle) s_resume = None"
    and run: "command_tasks (Command s_figure_survey ?v) = Inr ts"
    and len: "length ts = 2 * length ?pts + 2"
    and nth: "\<And>i. i < length ?pts \<Longrightarrow>
                action (VStr s_mle) (if even i then s_pause else s_resume) = None
                \<Longrightarrow> ts ! (2 * i + 2) = None"
    by blast
  have l: "length ts = 6" using len by simp
  have "ts ! 4 = None" using nth [of 1] none by simp
  with none run l show ?thesis by blast
qed

text \<open>
  C8 as stated fails: a figure survey of two waypoints with the multibeam echosounder
  has six entries, the fifth being the null entry of the pair (echosounder, "resume").
\<close>

theorem undefined_pair_counterexample:
  "command_tasks (Command s_figure_survey
      [(s_device, VStr s_mle), (s_height, VFloat 5), (s_speed, VFloat 1),
       (s_coordinates, VPoints [(s_coordinates, [(10, 20), (10, 21)])])])
     = Inr [Some MBEOnHf,
            Some (TackPoint (VFloat 5) (VFloat 1) 10 20), Some MBEPause,
            Some (TackPoint (VFloat 5) (VFloat 1) 10 21), None,
            Some MBEOff]"
proof -
  let ?pts = "[(10::real, 20::real), (10, 21)]"
  let ?v = "[(s_device, VStr s_mle), (s_height, VFloat 5), (s_speed, VFloat 1),
       (s_coordinates, VPoints [(s_coordinates, ?pts)])]"
  have w: "wants_toggle s_figure_survey ?v = Inr True"
    by (simp add: wants_toggle_def)
  have h2: "map_of ?v s_device = Some (VStr s_mle)" by simp
  have h3: "map_of ?v s_height = Some (VFloat 5)" by (simp add: keyword_defs)
  have h4: "map_of ?v s_speed = Some (VFloat 1)" by (simp add: keyword_defs)
  have h5: "map_of ?v s_coordinates = Some (VPoints [(s_coordinates, ?pts)])"
    by (simp add: keyword_defs)
  have c: "coordinate_items ?v = Inr ?pts"
    unfolding coordinate_items_def dict_item_def h5 by simp
  have d: "dict_item ?v s_device = Inr (VStr s_mle)"
    unfolding dict_item_def h2 by simp
  have hd: "dict_item ?v s_height = Inr (VFloat 5)"
    unfolding dict_item_def h3 by simp
  have sd: "dict_item ?v s_speed = Inr (VFloat 1)"
    unfolding dict_item_def h4 by simp
  show ?thesis
    by (simp add: command_tasks_def w d c hd sd action_mle movement_def)
qed

lemma is_prefix_iff: "is_prefix xs ys \<longleftrightarrow> (\<exists>zs. ys = xs @ zs)"
  by (induction xs ys rule: is_prefix.induct) auto

lemma str_contains_iff: "str_contains sub s \<longleftrightarrow> (\<exists>pre post. s = pre @ sub @ post)"
proof (induction s)
  case Nil
  then show ?case by auto
next
  case (Cons x xs)
  show ?case
  proof
    assume "str_contains sub (x # xs)"
    then consider "is_prefix sub (x # xs)" | "str_contains sub xs" by auto
    then show "\<exists>pre post. x # xs = pre @ sub @ post"
    proof cases
      case 1
      then obtain zs where "x # xs = sub @ zs" by (auto simp: is_prefix_iff)
      then have "x # xs = [] @ sub @ zs" by simp
      then show ?thesis by blast
    next
      case 2
      with Cons.IH obtain pre post where "xs = pre @ sub @ post" by blast
      then have "x # xs = (x # pre) @ sub @ post" by simp
      then show ?thesis by blast
    qed
  next
    assume "\<exists>pre post. x # xs = pre @ sub @ post"
    then obtain pre post where eq: "x # xs = pre @ sub @ post" by blast
    show "str_contains sub (x # xs)"
    proof (cases pre)
      case Nil
      with eq have "is_prefix sub (x # xs)" by (auto simp: is_prefix_iff)
      then show ?thesis by simp
    next
      case (Cons p pre')
      with eq have "xs = pre' @ sub @ post" by simp
      with Cons.IH have "str_contains sub xs" by blast
      then show ?thesis by simp
    qed
  qed
qed

lemma generate_rosette_length:
  assumes "1 \<le> num_passes" and "cos (math_radians center_lat) \<noteq> 0"
  shows "\<exists>pts. generate_rosette center_lon center_lat radius_m num_passes angle_offset = Inr pts
           \<and> length pts = 2 * nat num_passes"
  using assms by (simp add: generate_rosette_def Let_def length_concat_pairs)

lemma keywords_distinct:
  "s_centered_meander \<noteq> s_meander" "s_centered_meander \<noteq> s_spiral"
  "s_centered_meander \<noteq> s_star" "s_centered_meander \<noteq> s_rosette"
  by (simp_all add: keyword_defs)

lemma get_trajectory_type_str:
  assumes "fig_command fig = Command (fig_key fig) v"
    and "map_of v s_trajectory = Some (VStr t)"
  shows "get_trajectory_type fig = Inr (classify_trajectory (fig_key fig) (trajectory_key t))"
  using assms by (simp add: get_trajectory_type_def command_params_def)

text \<open>
  C5 (as amended).  The dispatch key is the lowercased text before the first comma of the
  trajectory parameter; it is tested by substring for the keywords meander, spiral, star,
  rosette and fan (an alias of the rosette), in this order.  The centred meander is
  chosen exactly when the command is a point survey and the key contains the meander
  keyword.  A key that contains none of the five tested words gives the empty waypoint
  list, without an error.
\<close>

theorem trajectory_dispatch:
  assumes "fig_command fig = Command (fig_key fig) v"
    and "map_of v s_trajectory = Some (VStr t)"
    and "traj = py_lower (takeWhile (\<lambda>c. c \<noteq> 44) t)"
  shows "get_trajectory_type fig =
           Inr (if str_contains s_meander traj \<and> fig_key fig = s_point_survey
                  then Some s_centered_meander
                else if str_contains s_meander traj then Some s_meander
                else if str_contains s_spiral traj then Some s_spiral
                else if str_contains s_star traj then Some s_star
                else if str_contains s_rosette traj \<or> str_contains s_fan traj
                  then Some s_rosette
                else None)
       \<and> (get_trajectory_type fig = Inr (Some s_centered_meander)
            \<longleftrightarrow> fig_key fig = s_point_survey \<and> str_contains s_meander traj)
       \<and> (\<not> str_contains s_meander traj \<and> \<not> str_contains s_spiral traj
            \<and> \<not> str_contains s_star traj \<and> \<not> str_contains s_rosette traj
            \<and> \<not> str_contains s_fan traj
            \<longrightarrow> coordinates str_float fig = Some (Inr []))"
proof -
  have g: "get_trajectory_type fig = Inr (classify_trajectory (fig_key fig) traj)"
    using get_trajectory_type_str [OF assms(1,2)] assms(3) by (simp add: trajectory_key_def)
  have a: "get_trajectory_type fig =
           Inr (if str_contains s_meander traj \<and> fig_key fig = s_point_survey
                  then Some s_centered_meander
                else if str_contains s_meander traj then Some s_meander
                else if str_contains s_spiral traj then Some s_spiral
                else if str_contains s_star traj then Some s_star
                else if str_contains s_rosette traj \<or> str_contains s_fan traj
                  then Some s_rosette
                else None)"
    unfolding g classify_trajectory_def by simp
  have b: "get_trajectory_type fig = Inr (Some s_centered_meander)
            \<longleftrightarrow> fig_key fig = s_point_survey \<and> str_contains s_meander traj"
    unfolding g classify_trajectory_def using keywords_distinct by auto
  have c: "coordinates str_float fig = Some (Inr [])"
    if "\<not> str_contains s_meander traj \<and> \<not> str_contains s_spiral traj
            \<and> \<not> str_contains s_star traj \<and> \<not> str_contains s_rosette traj
            \<and> \<not> str_contains s_fan traj"
  proof -
    from that have "get_trajectory_type fig = Inr None"
      unfolding g classify_trajectory_def by simp
    then show ?thesis by (simp add: coordinates_def)
  qed
  from a b c show ?thesis by blast
qed

lemma trajectory_key_upper_meander:
  "py_lower (takeWhile (\<lambda>c. c \<noteq> 44) ([1052, 1077, 1072, 1085, 1076, 1088, 44, 32] @ s_vertical))
     = s_meander"
  by (simp add: py_lower_def lower_code_point_def s_meander_def)

theorem trajectory_dispatch_witness:
  "get_trajectory_type
     \<lparr>fig_lon = 10, fig_lat = 20, fig_key = s_point_survey,
      fig_command = Command s_point_survey
        [(s_trajectory, VStr ([1052, 1077, 1072, 1085, 1076, 1088, 44, 32] @ s_vertical))]\<rparr>
     = Inr (Some s_centered_meander)
   \<and> coordinates (\<lambda>s. None)
       \<lparr>fig_lon = 10, fig_lat = 20, fig_key = s_figure_survey,
        fig_command = Command s_figure_survey [(s_trajectory, VStr [1082, 1088, 1091, 1075])]\<rparr>
     = Some (Inr [])"
proof
  let ?t = "[1052, 1077, 1072, 1085, 1076, 1088, 44, 32] @ s_vertical"
  let ?fig = "\<lparr>fig_lon = 10, fig_lat = 20, fig_key = s_point_survey,
      fig_command = Command s_point_survey [(s_trajectory, VStr ?t)]\<rparr>"
  have c: "str_contains s_meander s_meander" by (simp add: s_meander_def)
  from trajectory_dispatch [of ?fig "[(s_trajectory, VStr ?t)]" ?t s_meander]
  show "get_trajectory_type ?fig = Inr (Some s_centered_meander)"
    using c trajectory_key_upper_meander by simp
next
  let ?t = "[1082, 1088, 1091, 1075] :: ustring"
  let ?fig = "\<lparr>fig_lon = 10, fig_lat = 20, fig_key = s_figure_survey,
        fig_command = Command s_figure_survey [(s_trajectory, VStr ?t)]\<rparr>"
  have k: "py_lower (takeWhile (\<lambda>c. c \<noteq> 44) ?t) = ?t"
    by (simp add: py_lower_def lower_code_point_def)
  have n: "\<not> str_contains s_meander ?t \<and> \<not> str_contains s_spiral ?t
            \<and> \<not> str_contains s_star ?t \<and> \<not> str_contains s_rosette ?t
            \<and> \<not> str_contains s_fan ?t"
    by (simp add: keyword_defs)
  from trajectory_dispatch [of ?fig "[(s_trajectory, VStr ?t)]" ?t ?t "\<lambda>s. None"] k n
  show "coordinates (\<lambda>s. None) ?fig = Some (Inr [])"
    by simp
qed

text \<open>
  C5 as stated fails for the word "fan": it contains none of the five pattern keywords
  (meander, centred meander, spiral, star, rosette), and yet the dispatch selects the
  rosette, which with its default of six passes returns twelve waypoints.
\<close>

theorem trajectory_dispatch_counterexample:
  "\<not> str_contains s_meander (trajectory_key s_fan)
   \<and> \<not> str_contains s_centered_meander (trajectory_key s_fan)
   \<and> \<not> str_contains s_spiral (trajectory_key s_fan)
   \<and> \<not> str_contains s_star (trajectory_key s_fan)
   \<and> \<not> str_contains s_rosette (trajectory_key s_fan)
   \<and> (\<exists>pts. coordinates (\<lambda>s. None)
          \<lparr>fig_lon = 0, fig_lat = 0, fig_key = s_figure_survey,
           fig_command = Command s_figure_survey [(s_trajectory, VStr s_fan)]\<rparr>
          = Some (Inr pts)
        \<and> length pts = 12)"
proof -
  let ?fig = "\<lparr>fig_lon = 0, fig_lat = 0, fig_key = s_figure_survey,
           fig_command = Command s_figure_survey [(s_trajectory, VStr s_fan)]\<rparr>"
  have k: "trajectory_key s_fan = s_fan"
    by (simp add: trajectory_key_def py_lower_def lower_code_point_def s_fan_def)
  have n: "\<not> str_contains s_meander s_fan" "\<not> str_contains s_centered_meander s_fan"
    "\<not> str_contains s_spiral s_fan" "\<not> str_contains s_star s_fan"
    "\<not> str_contains s_rosette s_fan" "str_contains s_fan s_fan"
    by (simp_all add: keyword_defs)
  have g: "get_trajectory_type ?fig = Inr (Some s_rosette)"
    using get_trajectory_type_str [of ?fig "[(s_trajectory, VStr s_fan)]" s_fan] n
    by (simp add: k classify_trajectory_def)
  have p: "command_params ?fig = Some (Inr [(s_trajectory, VStr s_fan)])"
    by (simp add: command_params_def)
  have d: "dict_get [(s_trajectory, VStr s_fan)] s_radius (VInt 10) = VInt 10"
    "dict_get [(s_trajectory, VStr s_fan)] s_angle (VInt 0) = VInt 0"
    "dict_get [(s_trajectory, VStr s_fan)] s_passes (VInt 6) = VInt 6"
    by (simp_all add: dict_get_def keyword_defs)
  have ne: "s_rosette \<noteq> s_meander" "s_rosette \<noteq> s_centered_meander"
    "s_rosette \<noteq> s_spiral" "s_rosette \<noteq> s_star"
    by (simp_all add: keyword_defs)
  have c: "coordinates (\<lambda>s. None) ?fig = Some (call_rosette 0 0 (VInt 10) (VInt 0) (VInt 6))"
    unfolding coordinates_def g p using ne by (simp add: d Let_def)
  have r: "call_rosette 0 0 (VInt 10) (VInt 0) (VInt 6) = generate_rosette 0 0 10 6 0"
    by (simp add: call_rosette_def as_number_def)
  from generate_rosette_length [of 6 0 0 10 0]
  obtain pts where "generate_rosette 0 0 10 6 0 = Inr pts" "length pts = 12"
    by (auto simp: math_radians_def)
  with c r n k show ?thesis by simp
qed

lemma prompt_missing_other:
  assumes "prompt_missing sf si p st = Inr st'" and "k \<noteq> p \<or> map_of (fst st) k \<noteq> None"
  shows "map_of (fst st') k = map_of (fst st) k"
  using assms
  by (auto simp: prompt_missing_def update_conv' split: option.splits sum.splits prod.splits)

lemma prompt_all_other:
  assumes "prompt_all sf si names st = Inr st'"
    and "k \<notin> set names \<or> map_of (fst st) k \<noteq> None"
  shows "map_of (fst st') k = map_of (fst st) k"
  using assms
proof (induction names arbitrary: st)
  case Nil
  then show ?case by simp
next
  case (Cons p names)
  from Cons.prems(1) obtain st1 where
    s1: "prompt_missing sf si p st = Inr st1" and s2: "prompt_all sf si names st1 = Inr st'"
    by (auto split: sum.splits)
  from Cons.prems(2) have a: "k \<noteq> p \<or> map_of (fst st) k \<noteq> None" by auto
  have e1: "map_of (fst st1) k = map_of (fst st) k"
    by (rule prompt_missing_other [OF s1 a])
  from Cons.prems(2) e1 have "k \<notin> set names \<or> map_of (fst st1) k \<noteq> None" by auto
  from Cons.IH [OF s2 this] e1 show ?case by simp
qed

lemma apply_defaults_other:
  assumes "k \<notin> fst ` set defaults \<or> map_of ps k \<noteq> None"
  shows "map_of (apply_defaults defaults ps) k = map_of ps k"
  using assms
proof (induction defaults arbitrary: ps)
  case Nil
  then show ?case by simp
next
  case (Cons a defaults)
  obtain p d where a: "a = (p, d)" by (cases a)
  let ?ps = "if map_of ps p = None then AList.update p d ps else ps"
  from Cons.prems a have e: "map_of ?ps k = map_of ps k"
    by (auto simp: update_conv')
  with Cons.prems have "k \<notin> fst ` set defaults \<or> map_of ?ps k \<noteq> None" by auto
  from Cons.IH [OF this] e a show ?case by simp
qed

lemma convert_parameter_types_None:
  assumes "convert_parameter_types sf si ps = Inr ps'" and "map_of ps k = None"
  shows "map_of ps' k = None"
  using assms
  by (induction ps arbitrary: ps') (auto split: sum.splits if_splits)

lemma convert_parameter_types_Some:
  assumes "convert_parameter_types sf si ps = Inr ps'" and "map_of ps k = Some v"
  shows "\<exists>v'. convert_value sf si k v = Inr v' \<and> map_of ps' k = Some v'"
  using assms
  by (induction ps arbitrary: ps') (auto split: sum.splits if_splits)

lemma convert_value_float_fixed:
  "PARAM_TYPES k = Some TFloat \<Longrightarrow> convert_value sf si k (VFloat r) = Inr (VFloat r)"
  by (simp add: convert_value_def)

lemma PARAM_TYPES_height: "PARAM_TYPES s_height = Some TFloat"
  by (simp add: PARAM_TYPES_def)

lemma depth_neq_height: "s_depth \<noteq> s_height"
  by (simp add: keyword_defs)

lemma process_height_depth_result:
  assumes "process_height_depth rs sf si cmd st1 = Inr st2"
  shows "map_of (fst st2) s_depth = None"
    and "map_of (fst st1) s_height = Some h \<Longrightarrow> map_of (fst st1) s_depth \<noteq> None
           \<Longrightarrow> map_of (fst st2) s_height = Some h"
    and "map_of (fst st1) s_height = None \<Longrightarrow> map_of (fst st1) s_depth = Some d0
           \<Longrightarrow> \<exists>d. py_float sf d0 = Inr d \<and> map_of (fst st2) s_height = Some (VFloat (- \<bar>d\<bar>))"
proof -
  show "map_of (fst st2) s_depth = None"
  proof (cases "map_of (fst st1) s_depth = None")
    case False
    with assms show ?thesis
      by (auto simp: process_height_depth_def Let_def delete_conv'
               split: if_splits sum.splits)
  next
    case True
    show ?thesis
    proof (cases "map_of (fst st1) s_height = None")
      case False
      with True assms show ?thesis
        by (auto simp: process_height_depth_def Let_def)
    next
      case h: True
      show ?thesis
      proof (cases "map_of (required_keys rs) cmd")
        case None
        with True h assms show ?thesis
          by (auto simp: process_height_depth_def Let_def)
      next
        case (Some names)
        show ?thesis
        proof (cases "s_height \<in> set names")
          case False
          with Some True h assms show ?thesis
            by (auto simp: process_height_depth_def Let_def)
        next
          case in_names: True
          with Some True h assms have "prompt_missing sf si s_height st1 = Inr st2"
            by (auto simp: process_height_depth_def Let_def)
          from prompt_missing_other [OF this, of s_depth] True depth_neq_height
          show ?thesis by simp
        qed
      qed
    qed
  qed
next
  assume "map_of (fst st1) s_height = Some h" "map_of (fst st1) s_depth \<noteq> None"
  with assms depth_neq_height show "map_of (fst st2) s_height = Some h"
    by (auto simp: process_height_depth_def Let_def delete_conv')
next
  assume "map_of (fst st1) s_height = None" "map_of (fst st1) s_depth = Some d0"
  with assms depth_neq_height
  show "\<exists>d. py_float sf d0 = Inr d \<and> map_of (fst st2) s_height = Some (VFloat (- \<bar>d\<bar>))"
    by (auto simp: process_height_depth_def Let_def delete_conv' update_conv' dict_item_def
             split: sum.splits)
qed

lemma validate_command_steps:
  assumes "validate_command rs sf si cmd st = Inr (ps', rest')"
  obtains st1 st2 st3 where
    "point_survey_bootstrap rs sf si cmd st = Inr st1"
    "process_height_depth rs sf si cmd st1 = Inr st2"
    "check_required_parameters rs sf si cmd st2 = Inr st3"
    "convert_parameter_types sf si (apply_optional_parameters rs cmd (fst st3)) = Inr ps'"
  using assms by (auto simp: validate_command_def split: sum.splits)

lemma later_steps_keep:
  assumes "check_required_parameters rs sf si cmd st2 = Inr st3"
    and "(k \<notin> set (required_names rs cmd) \<and> k \<notin> set (optional_names rs cmd))
         \<or> map_of (fst st2) k \<noteq> None"
  shows "map_of (apply_optional_parameters rs cmd (fst st3)) k = map_of (fst st2) k"
proof -
  have r: "map_of (fst st3) k = map_of (fst st2) k"
  proof (cases "map_of (required_keys rs) cmd")
    case None
    with assms(1) show ?thesis by (simp add: check_required_parameters_def)
  next
    case (Some names)
    with assms(1) have "prompt_all sf si names st2 = Inr st3"
      by (simp add: check_required_parameters_def)
    moreover from assms(2) Some have "k \<notin> set names \<or> map_of (fst st2) k \<noteq> None"
      by (auto simp: required_names_def)
    ultimately show ?thesis by (rule prompt_all_other)
  qed
  have "map_of (apply_optional_parameters rs cmd (fst st3)) k = map_of (fst st3) k"
  proof (cases "map_of (optional_keys rs) cmd")
    case None
    then show ?thesis by (simp add: apply_optional_parameters_def)
  next
    case (Some defaults)
    from assms(2) Some r have "k \<notin> fst ` set defaults \<or> map_of (fst st3) k \<noteq> None"
      by (auto simp: optional_names_def)
    from apply_defaults_other [OF this] Some show ?thesis
      by (simp add: apply_optional_parameters_def)
  qed
  with r show ?thesis by simp
qed

text \<open>
  C4 (as amended).  Let a command be accepted by the validator, under a rule set that
  lists the depth neither among the required nor among the optional parameters of the
  command.  Then the validated parameters hold no depth.  If height and depth were both
  present when the normalisation started (for a point survey: after the pattern-specific
  step, which may have asked for parameters), the height is the given one, converted to
  its declared type \<open>float\<close> (a \<open>float\<close> is unchanged); if the depth \<open>d\<close> alone was
  present, the height is \<open>- |d|\<close>.
\<close>

theorem height_depth_normalised:
  assumes "validate_command rs sf si cmd st = Inr (ps', rest')"
    and "s_depth \<notin> set (required_names rs cmd)"
    and "s_depth \<notin> set (optional_names rs cmd)"
  shows "\<exists>st1. point_survey_bootstrap rs sf si cmd st = Inr st1
           \<and> (cmd \<noteq> s_point_survey \<longrightarrow> st1 = st)
           \<and> map_of ps' s_depth = None
           \<and> (\<forall>h. map_of (fst st1) s_height = Some h \<and> map_of (fst st1) s_depth \<noteq> None
                 \<longrightarrow> (\<exists>h'. convert_value sf si s_height h = Inr h'
                            \<and> map_of ps' s_height = Some h')
                     \<and> (\<forall>r. h = VFloat r \<longrightarrow> map_of ps' s_height = Some h))
           \<and> (\<forall>d0. map_of (fst st1) s_height = None \<and> map_of (fst st1) s_depth = Some d0
                 \<longrightarrow> (\<exists>d. py_float sf d0 = Inr d
                           \<and> map_of ps' s_height = Some (VFloat (- \<bar>d\<bar>))))"
proof -
  from assms(1) obtain st1 st2 st3 where
    b: "point_survey_bootstrap rs sf si cmd st = Inr st1"
    and n: "process_height_depth rs sf si cmd st1 = Inr st2"
    and r: "check_required_parameters rs sf si cmd st2 = Inr st3"
    and c: "convert_parameter_types sf si (apply_optional_parameters rs cmd (fst st3)) = Inr ps'"
    by (rule validate_command_steps)
  have same: "st1 = st" if "cmd \<noteq> s_point_survey"
    using b that by (simp add: point_survey_bootstrap_def)
  have d2: "map_of (fst st2) s_depth = None"
    by (rule process_height_depth_result(1) [OF n])
  from later_steps_keep [OF r, of s_depth] assms(2,3) d2
  have "map_of (apply_optional_parameters rs cmd (fst st3)) s_depth = None" by simp
  from convert_parameter_types_None [OF c this]
  have depth: "map_of ps' s_depth = None" .
  have keep: "\<exists>v'. convert_value sf si s_height v = Inr v' \<and> map_of ps' s_height = Some v'"
    if "map_of (fst st2) s_height = Some v" for v
  proof -
    from later_steps_keep [OF r, of s_height] that
    have "map_of (apply_optional_parameters rs cmd (fst st3)) s_height = Some v" by simp
    from convert_parameter_types_Some [OF c this] show ?thesis .
  qed
  have both: "(\<exists>h'. convert_value sf si s_height h = Inr h' \<and> map_of ps' s_height = Some h')
             \<and> (\<forall>r. h = VFloat r \<longrightarrow> map_of ps' s_height = Some h)"
    if "map_of (fst st1) s_height = Some h \<and> map_of (fst st1) s_depth \<noteq> None" for h
  proof -
    from that have "map_of (fst st2) s_height = Some h"
      using process_height_depth_result(2) [OF n] by blast
    from keep [OF this] obtain h' where
      h': "convert_value sf si s_height h = Inr h'" "map_of ps' s_height = Some h'" by blast
    then have "map_of ps' s_height = Some h" if "h = VFloat r" for r
      using that convert_value_float_fixed [OF PARAM_TYPES_height, of sf si r] by simp
    with h' show ?thesis by blast
  qed
  have only: "\<exists>d. py_float sf d0 = Inr d \<and> map_of ps' s_height = Some (VFloat (- \<bar>d\<bar>))"
    if "map_of (fst st1) s_height = None \<and> map_of (fst st1) s_depth = Some d0" for d0
  proof -
    from that process_height_depth_result(3) [OF n] obtain d where
      d: "py_float sf d0 = Inr d" "map_of (fst st2) s_height = Some (VFloat (- \<bar>d\<bar>))"
      by blast
    from keep [OF d(2)] have "map_of ps' s_height = Some (VFloat (- \<bar>d\<bar>))"
      using convert_value_float_fixed [OF PARAM_TYPES_height, of sf si "- \<bar>d\<bar>"] by auto
    with d(1) show ?thesis by blast
  qed
  from b same depth both only show ?thesis by blast
qed

lemmas validate_eval_defs =
  validate_command_def point_survey_bootstrap_def process_height_depth_def
  check_required_parameters_def apply_optional_parameters_def convert_value_def
  PARAM_TYPES_def py_float_def dict_item_def required_names_def optional_names_def Let_def

theorem height_depth_normalised_witness:
  "validate_command
      \<lparr>required_keys = [(s_point_survey, [s_height])], optional_keys = [],
       trajectory_dependent = []\<rparr>
      (\<lambda>s. None) (\<lambda>s. None) s_figure_survey ([(s_depth, VFloat 3), (s_speed, VFloat 1)], [])
     = Inr ([(s_speed, VFloat 1), (s_height, VFloat (- 3))], [])
   \<and> map_of [(s_speed, VFloat 1), (s_height, VFloat (- 3))] s_depth = None
   \<and> map_of [(s_speed, VFloat 1), (s_height, VFloat (- 3))] s_height = Some (VFloat (- \<bar>3\<bar>))"
proof -
  let ?rs = "\<lparr>required_keys = [(s_point_survey, [s_height])], optional_keys = [],
       trajectory_dependent = []\<rparr>"
  let ?st = "([(s_depth, VFloat 3), (s_speed, VFloat 1)], []) :: params \<times> ustring list"
  let ?ps = "[(s_speed, VFloat 1), (s_height, VFloat (- 3))]"
  have v: "validate_command ?rs (\<lambda>s. None) (\<lambda>s. None) s_figure_survey ?st = Inr (?ps, [])"
    by (simp add: validate_eval_defs keyword_defs)
  have r: "s_depth \<notin> set (required_names ?rs s_figure_survey)"
    by (simp add: required_names_def keyword_defs)
  have p: "s_depth \<notin> set (optional_names ?rs s_figure_survey)"
    by (simp add: optional_names_def)
  have k: "s_figure_survey \<noteq> s_point_survey" by (simp add: keyword_defs)
  from height_depth_normalised [OF v r p] k
  have d: "map_of ?ps s_depth = None"
    and o: "\<forall>d0. map_of (fst ?st) s_height = None \<and> map_of (fst ?st) s_depth = Some d0
                 \<longrightarrow> (\<exists>d. py_float (\<lambda>s. None) d0 = Inr d
                           \<and> map_of ?ps s_height = Some (VFloat (- \<bar>d\<bar>)))"
    by auto
  have "map_of (fst ?st) s_height = None \<and> map_of (fst ?st) s_depth = Some (VFloat 3)"
    by (simp add: keyword_defs)
  with o have "\<exists>d. py_float (\<lambda>s. None) (VFloat 3) = Inr d
                           \<and> map_of ?ps s_height = Some (VFloat (- \<bar>d\<bar>))"
    by blast
  then have "map_of ?ps s_height = Some (VFloat (- \<bar>3\<bar>))"
    by (auto simp: py_float_def)
  with v d show ?thesis by blast
qed

text \<open>
  C4 as stated fails under a rule set that lists the depth as an optional parameter:
  the normalisation drops the depth, the optional defaults put it back, and the
  validated command holds both height and depth.
\<close>

theorem height_depth_counterexample:
  "validate_command
      \<lparr>required_keys = [], optional_keys = [(s_figure_survey, [(s_depth, VFloat 10)])],
       trajectory_dependent = []\<rparr>
      (\<lambda>s. None) (\<lambda>s. None) s_figure_survey ([(s_height, VFloat 5), (s_depth, VFloat 3)], [])
     = Inr ([(s_height, VFloat 5), (s_depth, VFloat 10)], [])"
  by (simp add: validate_eval_defs keyword_defs)











end
